theory Spec2Isabelle
  imports Main "HOL-Library.Word"
begin

unbundle bit_operations_syntax

section \<open>Hidden-state capture: the evaluation callback of hidden-states.cpp\<close>

text \<open>
  A shallow embedding of \<^verbatim>\<open>examples/hidden-states/hidden-states.cpp\<close>: the naming
  filter of the Ask phase, the element decoder and the strided loop nest of
  \<^verbatim>\<open>ggml_print_tensor_to_csv\<close>, the Deliver phase of
  \<^verbatim>\<open>ggml_eval_layer_output\<close> with its static counter and scratch vector, and
  \<^verbatim>\<open>main\<close>.
\<close>

subsection \<open>Machine types\<close>

text \<open>
  \<^verbatim>\<open>int64_t\<close> values are 64-bit words read by \<open>sint\<close>, \<^verbatim>\<open>size_t\<close> values
  are 64-bit words read by \<open>unat\<close> (an LP64 host). A C \<^verbatim>\<open>float\<close> is its 32-bit
  object representation, a \<^verbatim>\<open>ggml_fp16_t\<close> its 16-bit one.
\<close>

type_synonym uint8_t = "8 word"
type_synonym int64_t = "64 word"
type_synonym size_t = "64 word"
type_synonym float32 = "32 word"
type_synonym ggml_fp16_t = "16 word"

text \<open>
  The two ways the process can stop inside the callback: \<^verbatim>\<open>GGML_ABORT\<close>, and a read
  outside the buffer it is given (undefined behaviour in C, kept apart here).
\<close>

datatype error = Abort | Out_of_bounds

subsection \<open>Collaborator types that the source only includes\<close>

text \<open>
  Modelled from the spec: \<^verbatim>\<open>enum ggml_type\<close> of ggml.h is not under src/. The spec
  lists the encoding tags as 32-bit float, 16-bit float, 8/16/32-bit signed integer and
  several block-quantized encodings; every other tag is unsupported. The five tags the
  source names keep their names, a block-quantized encoding and any remaining encoding
  carry their enum number.
\<close>

datatype ggml_type =
    GGML_TYPE_F32
  | GGML_TYPE_F16
  | GGML_TYPE_I8
  | GGML_TYPE_I16
  | GGML_TYPE_I32
  | GGML_TYPE_QUANT nat
  | GGML_TYPE_OTHER nat

text \<open>
  Modelled from the spec: \<^verbatim>\<open>ggml_is_quantized\<close> of ggml.c is not under src/; it tells
  the block-quantized encodings from the others.
\<close>

fun ggml_is_quantized :: "ggml_type \<Rightarrow> bool" where
  "ggml_is_quantized (GGML_TYPE_QUANT k) = True"
| "ggml_is_quantized ty = False"

text \<open>
  Modelled from the spec: \<^verbatim>\<open>enum llm_arch\<close> of llama-arch.h is not under src/. Only
  the one architecture family the source names is told apart.
\<close>

datatype llm_arch = LLM_ARCH_WAVTOKENIZER_DEC | LLM_ARCH_OTHER nat

text \<open>
  A tensor as the callback sees it. The arrays \<^verbatim>\<open>ne\<close> and \<^verbatim>\<open>nb\<close> have
  \<^verbatim>\<open>GGML_MAX_DIMS = 4\<close> entries each, so they are 4-tuples. \<open>is_host\<close> is the
  answer of \<^verbatim>\<open>ggml_backend_buffer_is_host(t->buffer)\<close> and \<open>data\<close> the bytes of the
  tensor's backing store (host memory behind \<^verbatim>\<open>t->data\<close>, or device memory).
\<close>

record ggml_tensor =
  type :: ggml_type
  ne :: "int64_t \<times> int64_t \<times> int64_t \<times> int64_t"
  nb :: "size_t \<times> size_t \<times> size_t \<times> size_t"
  name :: string
  is_host :: bool
  data :: "uint8_t list"

text \<open>
  The functions of ggml, of the C++ runtime and of the language that the source calls and
  that are not under src/, taken as parameters: the half to single widening, the cast
  \<^verbatim>\<open>(float) x\<close> of an integer, the bulk block decoder
  \<^verbatim>\<open>ggml_get_type_traits(type)->to_float(data, out, n)\<close> (it returns the \<open>n\<close> floats
  it writes), the two label functions, the byte footprint, \<^verbatim>\<open>operator<<(float)\<close>,
  and the capacity a \<^verbatim>\<open>std::vector\<close> asks for when it has to reallocate (given the
  old capacity and the requested size).
\<close>

record ggml_api =
  ggml_fp16_to_fp32 :: "ggml_fp16_t \<Rightarrow> float32"
  float_of_int :: "int \<Rightarrow> float32"
  to_float :: "ggml_type \<Rightarrow> uint8_t list \<Rightarrow> nat \<Rightarrow> float32 list"
  ggml_type_name :: "ggml_type \<Rightarrow> string"
  ggml_op_desc :: "ggml_tensor \<Rightarrow> string"
  ggml_nbytes :: "ggml_tensor \<Rightarrow> nat"
  show_float :: "float32 \<Rightarrow> string"
  vector_growth :: "nat \<Rightarrow> nat \<Rightarrow> nat"

subsection \<open>Strings\<close>

text \<open>
  \<^verbatim>\<open>std::strncmp\<close>: both arguments are NUL-terminated, so the end of the list reads
  as the character 0; at most \<open>n\<close> characters are compared, as unsigned bytes.
\<close>

definition c_char_at :: "string \<Rightarrow> nat" where
  "c_char_at s = (case s of [] \<Rightarrow> 0 | c # cs \<Rightarrow> of_char c)"

fun strncmp :: "string \<Rightarrow> string \<Rightarrow> nat \<Rightarrow> int" where
  "strncmp s1 s2 0 = 0"
| "strncmp s1 s2 (Suc n) =
     (if c_char_at s1 \<noteq> c_char_at s2 then int (c_char_at s1) - int (c_char_at s2)
      else if c_char_at s1 = 0 then 0
      else strncmp (tl s1) (tl s2) n)"

text \<open>\<^verbatim>\<open>std::to_string\<close> on an \<^verbatim>\<open>int64_t\<close>: decimal digits, a minus sign first.\<close>

function decimal :: "nat \<Rightarrow> string" where
  "decimal n = (if n < 10 then [''0123456789'' ! n]
                else decimal (n div 10) @ [''0123456789'' ! (n mod 10)])"
  by pat_completeness auto
termination
  by (relation "measure (\<lambda>n. n)") auto

definition to_string :: "int \<Rightarrow> string" where
  "to_string i = (if i < 0 then CHR ''-'' # decimal (nat (- i)) else decimal (nat i))"

text \<open>
  \<^verbatim>\<open>ggml_ne_string\<close> (lines 28-39): the entries between braces, a comma and a space
  after each one but the last.
\<close>

fun ne_entries :: "int list \<Rightarrow> string" where
  "ne_entries [] = []"
| "ne_entries [x] = to_string x"
| "ne_entries (x # xs) = to_string x @ '', '' @ ne_entries xs"

definition ggml_ne_string :: "int list \<Rightarrow> string" where
  "ggml_ne_string xs = ''{'' @ ne_entries xs @ ''}''"

definition ne_list :: "int64_t \<times> int64_t \<times> int64_t \<times> int64_t \<Rightarrow> int list" where
  "ne_list e = (case e of (e0, e1, e2, e3) \<Rightarrow> [sint e0, sint e1, sint e2, sint e3])"

subsection \<open>The output stream\<close>

text \<open>
  One data row: the seven fields that one pass through the loop body writes (lines
  96-101), in column order. The stream holds what was written to it, line by line; once
  \<open>failbit\<close> is set (a failed \<^verbatim>\<open>open\<close>) every write is discarded.
\<close>

record csv_row =
  row_id :: size_t
  row_name :: string
  row_type :: string
  row_op :: string
  row_full_ne :: string
  row_curr_ne :: string
  row_value :: float32

datatype csv_line = Text string | Row csv_row

record ofstream =
  failbit :: bool
  content :: "csv_line list"

definition put_line :: "ofstream \<Rightarrow> csv_line \<Rightarrow> ofstream" where
  "put_line csv l = (if failbit csv then csv else csv\<lparr>content := content csv @ [l]\<rparr>)"

definition render_row :: "ggml_api \<Rightarrow> csv_row \<Rightarrow> string" where
  "render_row api r =
     decimal (unat (row_id r)) @ '','' @ row_name r @ '','' @ row_type r @ '','' @
     row_op r @ '','' @ [CHR 0x22] @ row_full_ne r @ [CHR 0x22] @ '','' @
     [CHR 0x22] @ row_curr_ne r @ [CHR 0x22] @ '','' @ show_float api (row_value r) @
     [CHR 0x0A]"

text \<open>\<^verbatim>\<open>init_csv_columns\<close> (lines 154-156).\<close>

definition init_csv_columns :: "ofstream \<Rightarrow> ofstream" where
  "init_csv_columns csv =
     put_line csv (Text (''ID,name,type,operation,full_ne,curr_ne,value'' @ [CHR 0x0A]))"

subsection \<open>The element decoder (lines 71-88)\<close>

text \<open>
  Reading \<open>w\<close> bytes at \<^verbatim>\<open>&data[i]\<close>; the host is little-endian.
\<close>

definition load_bytes :: "uint8_t list \<Rightarrow> nat \<Rightarrow> nat \<Rightarrow> error + uint8_t list" where
  "load_bytes buf i w =
     (if i + w \<le> length buf then Inr (take w (drop i buf)) else Inl Out_of_bounds)"

fun le_word :: "uint8_t list \<Rightarrow> 'a::len word" where
  "le_word [] = 0"
| "le_word (b # bs) = ucast b + push_bit 8 (le_word bs)"

definition decode_element ::
  "ggml_api \<Rightarrow> ggml_type \<Rightarrow> uint8_t list \<Rightarrow> float32 list option \<Rightarrow> nat \<Rightarrow> error + float32"
where
  "decode_element api ty buf unquantized_data i =
     (case unquantized_data of
        None \<Rightarrow>
          if ty = GGML_TYPE_F16 then
            map_sum id (\<lambda>bs. ggml_fp16_to_fp32 api (le_word bs)) (load_bytes buf i 2)
          else if ty = GGML_TYPE_F32 then
            map_sum id (\<lambda>bs. le_word bs) (load_bytes buf i 4)
          else if ty = GGML_TYPE_I32 then
            map_sum id (\<lambda>bs. float_of_int api (sint (le_word bs :: 32 word)))
              (load_bytes buf i 4)
          else if ty = GGML_TYPE_I16 then
            map_sum id (\<lambda>bs. float_of_int api (sint (le_word bs :: 16 word)))
              (load_bytes buf i 2)
          else if ty = GGML_TYPE_I8 then
            map_sum id (\<lambda>bs. float_of_int api (sint (le_word bs :: 8 word)))
              (load_bytes buf i 1)
          else Inl Abort
      | Some u \<Rightarrow> if i < length u then Inr (u ! i) else Inl Out_of_bounds)"

subsection \<open>The loop nest of \<^verbatim>\<open>ggml_print_tensor_to_csv\<close> (lines 52-109)\<close>

text \<open>
  A \<^verbatim>\<open>for\<close> loop over the values \<open>xs\<close> of its index, threading a state; the body
  may stop the process.
\<close>

fun for_each :: "'a list \<Rightarrow> ('a \<Rightarrow> 's \<Rightarrow> error + 's) \<Rightarrow> 's \<Rightarrow> error + 's" where
  "for_each [] body s = Inr s"
| "for_each (x # xs) body s =
     (case body x s of Inl e \<Rightarrow> Inl e | Inr s' \<Rightarrow> for_each xs body s')"

text \<open>
  \<^verbatim>\<open>for (int64_t i = 0; i < n; i++)\<close>: the index runs through \<open>0, ..., n - 1\<close>, and
  through nothing when \<open>n \<le> 0\<close>.
\<close>

definition upto_ne :: "int64_t \<Rightarrow> nat list" where
  "upto_ne n = [0 ..< nat (sint n)]"

text \<open>Line 68, in \<^verbatim>\<open>size_t\<close> arithmetic.\<close>

definition byte_offset ::
  "size_t \<times> size_t \<times> size_t \<times> size_t \<Rightarrow> nat \<times> nat \<times> nat \<times> nat \<Rightarrow> size_t"
where
  "byte_offset s idx =
     (case s of (nb0, nb1, nb2, nb3) \<Rightarrow> case idx of (i0, i1, i2, i3) \<Rightarrow>
        of_nat i3 * nb3 + of_nat i2 * nb2 + of_nat i1 * nb1 + of_nat i0 * nb0)"

text \<open>
  Modelled from the spec: \<^verbatim>\<open>ggml_nelements\<close> of ggml.c is not under src/; the number
  of elements is the product of the four extents.
\<close>

definition ggml_nelements :: "ggml_tensor \<Rightarrow> nat" where
  "ggml_nelements t =
     (case ne t of (e0, e1, e2, e3) \<Rightarrow> nat (sint (e0 * e1 * e2 * e3)))"

text \<open>Lines 56-61: the parallel float buffer, present for a block-quantized tensor only.\<close>

definition unquantized ::
  "ggml_api \<Rightarrow> uint8_t list \<Rightarrow> ggml_tensor \<Rightarrow> float32 list option"
where
  "unquantized api buf t =
     (if ggml_is_quantized (type t)
      then Some (take (ggml_nelements t) (to_float api (type t) buf (ggml_nelements t)))
      else None)"

text \<open>Lines 92-95 and 100: the current multi-index, as \<^verbatim>\<open>ggml_ne_string\<close> renders it.\<close>

definition index_string :: "nat \<times> nat \<times> nat \<times> nat \<Rightarrow> string" where
  "index_string idx =
     (case idx of (i0, i1, i2, i3) \<Rightarrow> ggml_ne_string [int i0, int i1, int i2, int i3])"

text \<open>
  Lines 68-101, the body of the innermost loop: the element at the offset is decoded
  (lines 68-88), then its row is written (lines 92-101).
\<close>

definition element_row ::
  "ggml_api \<Rightarrow> uint8_t list \<Rightarrow> size_t \<Rightarrow> ggml_tensor \<Rightarrow> float32 list option \<Rightarrow>
   nat \<times> nat \<times> nat \<times> nat \<Rightarrow> error + csv_row"
where
  "element_row api buf id0 t unquantized_data idx =
     map_sum id
       (\<lambda>v. \<lparr>row_id = id0,
             row_name = name t,
             row_type = ggml_type_name api (type t),
             row_op = ggml_op_desc api t,
             row_full_ne = ggml_ne_string (ne_list (ne t)),
             row_curr_ne = index_string idx,
             row_value = v\<rparr>)
       (decode_element api (type t) buf unquantized_data (unat (byte_offset (nb t) idx)))"

definition write_element ::
  "ggml_api \<Rightarrow> uint8_t list \<Rightarrow> size_t \<Rightarrow> ggml_tensor \<Rightarrow> float32 list option \<Rightarrow>
   nat \<times> nat \<times> nat \<times> nat \<Rightarrow> ofstream \<Rightarrow> error + ofstream"
where
  "write_element api buf id0 t unquantized_data idx csv =
     map_sum id (\<lambda>r. put_line csv (Row r)) (element_row api buf id0 t unquantized_data idx)"

definition ggml_print_tensor_to_csv ::
  "ggml_api \<Rightarrow> ofstream \<Rightarrow> uint8_t list \<Rightarrow> size_t \<Rightarrow> ggml_tensor \<Rightarrow> error + ofstream"
where
  "ggml_print_tensor_to_csv api csv buf id0 t =
     (let unquantized_data = unquantized api buf t in
      case ne t of (e0, e1, e2, e3) \<Rightarrow>
        for_each (upto_ne e3) (\<lambda>i3.
          for_each (upto_ne e2) (\<lambda>i2.
            for_each (upto_ne e1) (\<lambda>i1.
              for_each (upto_ne e0) (\<lambda>i0.
                write_element api buf id0 t unquantized_data (i0, i1, i2, i3))))) csv)"

subsection \<open>The callback \<^verbatim>\<open>ggml_eval_layer_output\<close> (lines 121-152)\<close>

text \<open>
  \<^verbatim>\<open>std::vector<uint8_t>\<close>: its elements and its capacity. \<^verbatim>\<open>resize(n)\<close> keeps
  the first \<open>n\<close> elements and fills up with zeros; it reallocates only when \<open>n\<close> exceeds
  the capacity, to at least \<open>n\<close>.
\<close>

record byte_vector =
  elems :: "uint8_t list"
  capacity :: nat

definition resize :: "ggml_api \<Rightarrow> byte_vector \<Rightarrow> nat \<Rightarrow> byte_vector" where
  "resize api v n =
     \<lparr>elems = take n (elems v) @ replicate (n - length (elems v)) 0,
      capacity = (if n \<le> capacity v then capacity v
                  else max n (vector_growth api (capacity v) n))\<rparr>"

text \<open>
  \<^verbatim>\<open>ggml_backend_tensor_get(t, dst, 0, n)\<close>: the first \<open>n\<close> bytes of the tensor's
  backing store overwrite the start of \<open>dst\<close>.
\<close>

definition ggml_backend_tensor_get :: "ggml_tensor \<Rightarrow> byte_vector \<Rightarrow> nat \<Rightarrow> byte_vector" where
  "ggml_backend_tensor_get t v n =
     v\<lparr>elems := take n (data t) @ drop (length (take n (data t))) (elems v)\<rparr>"

text \<open>
  The state the callback works on: the function-local \<^verbatim>\<open>static size_t id\<close>, the
  \<^verbatim>\<open>callback_data\<close> behind \<^verbatim>\<open>user_data\<close>, and the globals \<^verbatim>\<open>out_csv\<close> and
  \<^verbatim>\<open>g_model\<close> (of which only the architecture is read).
\<close>

record session =
  id_static :: size_t
  cb_data :: byte_vector
  out_csv :: ofstream
  g_model_arch :: llm_arch

text \<open>Lines 125-133: the Ask phase.\<close>

definition ask_phase :: "llm_arch \<Rightarrow> string \<Rightarrow> bool" where
  "ask_phase arch nm =
     (if strncmp nm ''l_out'' 5 = 0 then True
      else if arch = LLM_ARCH_WAVTOKENIZER_DEC
              \<and> (strncmp nm ''posnet_out'' 10 = 0 \<or> strncmp nm ''convnext_out'' 12 \<noteq> 0)
      then True
      else False)"

text \<open>
  Lines 136-142: a tensor that is not host-resident is copied into the scratch vector,
  resized to its byte footprint.
\<close>

definition transfer :: "ggml_api \<Rightarrow> ggml_tensor \<Rightarrow> session \<Rightarrow> session" where
  "transfer api t st =
     (if \<not> is_host t
      then st\<lparr>cb_data :=
             ggml_backend_tensor_get t
               (resize api (cb_data st) (ggml_nbytes api t)) (ggml_nbytes api t)\<rparr>
      else st)"

text \<open>Line 145: the bytes handed to the serializer.\<close>

definition host_view :: "ggml_tensor \<Rightarrow> session \<Rightarrow> uint8_t list" where
  "host_view t st = (if is_host t then data t else elems (cb_data st))"

definition ggml_eval_layer_output ::
  "ggml_api \<Rightarrow> ggml_tensor \<Rightarrow> bool \<Rightarrow> session \<Rightarrow> error + (bool \<times> session)"
where
  "ggml_eval_layer_output api t ask st =
     (if ask then Inr (ask_phase (g_model_arch st) (name t), st)
      else
        let st1 = transfer api t st
        in case (if \<not> ggml_is_quantized (type t)
                 then map_sum id (\<lambda>csv. st1\<lparr>out_csv := csv\<rparr>)
                        (ggml_print_tensor_to_csv api (out_csv st1) (host_view t st1)
                           (id_static st1) t)
                 else Inr st1) of
             Inl e \<Rightarrow> Inl e
           | Inr st2 \<Rightarrow> Inr (True, st2\<lparr>id_static := id_static st2 + 1\<rparr>))"

subsection \<open>The graph run and \<^verbatim>\<open>main\<close> (lines 158-229)\<close>

text \<open>
  Modelled from the spec: the graph-execution collaborator (\<^verbatim>\<open>llama_decode\<close> and
  the backend scheduler of ggml) is not under src/. For every node it calls the callback
  in Ask mode; when the answer is true it calls it again in Deliver mode, and it goes on
  to the next node while Deliver answers true.
\<close>

fun sched_eval :: "ggml_api \<Rightarrow> ggml_tensor list \<Rightarrow> session \<Rightarrow> error + session" where
  "sched_eval api [] st = Inr st"
| "sched_eval api (t # ts) st =
     (case ggml_eval_layer_output api t True st of
        Inl e \<Rightarrow> Inl e
      | Inr (want, st1) \<Rightarrow>
          if want then
            (case ggml_eval_layer_output api t False st1 of
               Inl e \<Rightarrow> Inl e
             | Inr (cont, st2) \<Rightarrow> if cont then sched_eval api ts st2 else Inr st2)
          else sched_eval api ts st1)"

text \<open>
  What \<^verbatim>\<open>main\<close> gets from outside: whether \<^verbatim>\<open>common_params_parse\<close> succeeds,
  whether \<^verbatim>\<open>out_csv.open\<close> succeeds, the architecture of the model that
  \<^verbatim>\<open>common_init_from_params\<close> loads (\<open>None\<close> when the model or the context is null),
  the nodes that \<^verbatim>\<open>llama_decode\<close> runs, and the value \<^verbatim>\<open>llama_decode\<close> returns.
\<close>

record environment =
  parse_ok :: bool
  open_ok :: bool
  init_arch :: "llm_arch option"
  graph :: "ggml_tensor list"
  decode_ret :: int

text \<open>
  What is left when \<^verbatim>\<open>main\<close> returns: the exit status, the messages of
  \<^verbatim>\<open>LOG_ERR\<close>, the output stream, and the final value of the static counter.
\<close>

record exit_state =
  exit_code :: int
  log_err :: "string list"
  csv_file :: ofstream
  last_id :: size_t

text \<open>\<^verbatim>\<open>out_csv.open(path)\<close>: the file starts empty; a failure sets \<open>failbit\<close>.\<close>

definition ofstream_open :: "bool \<Rightarrow> ofstream" where
  "ofstream_open ok = \<lparr>failbit = \<not> ok, content = []\<rparr>"

text \<open>The state when the graph run starts: \<^verbatim>\<open>id = 0\<close>, an empty \<^verbatim>\<open>cb_data\<close>.\<close>

definition session_start :: "ofstream \<Rightarrow> llm_arch \<Rightarrow> session" where
  "session_start csv arch =
     \<lparr>id_static = 0, cb_data = \<lparr>elems = [], capacity = 0\<rparr>, out_csv = csv,
      g_model_arch = arch\<rparr>"

text \<open>\<^verbatim>\<open>run\<close> (lines 158-172): the flag it returns, what it logs, the state it leaves.\<close>

definition run :: "ggml_api \<Rightarrow> environment \<Rightarrow> session \<Rightarrow> error + (bool \<times> string list \<times> session)" where
  "run api env st =
     map_sum id
       (\<lambda>st'. if decode_ret env \<noteq> 0 then (False, [''run : failed to eval'' @ [CHR 0x0A]], st')
              else (True, [], st'))
       (sched_eval api (graph env) st)"

definition main :: "ggml_api \<Rightarrow> environment \<Rightarrow> error + exit_state" where
  "main api env =
     (if \<not> parse_ok env then
        Inr \<lparr>exit_code = 1, log_err = [], csv_file = \<lparr>failbit = False, content = []\<rparr>,
             last_id = 0\<rparr>
      else
        let csv = init_csv_columns (ofstream_open (open_ok env)) in
        case init_arch env of
          None \<Rightarrow>
            Inr \<lparr>exit_code = 1, log_err = [''main : failed to init'' @ [CHR 0x0A]], csv_file = csv,
                 last_id = 0\<rparr>
        | Some arch \<Rightarrow>
            map_sum id
              (\<lambda>(ok, msgs, st).
                 \<lparr>exit_code = (if \<not> ok then 1 else 0), log_err = msgs,
                  csv_file = out_csv st, last_id = id_static st\<rparr>)
              (run api env (session_start csv arch)))"

subsection \<open>The walk as the specification words it\<close>

text \<open>
  Every multi-index \<open>(i0, i1, i2, i3)\<close> with \<open>0 \<le> i_k < e_k\<close>, \<open>i3\<close> varying slowest and
  \<open>i0\<close> fastest, and the byte offset \<open>i3*s3 + i2*s2 + i1*s1 + i0*s0\<close> over the
  natural numbers.
\<close>

definition walker_spec ::
  "int64_t \<times> int64_t \<times> int64_t \<times> int64_t \<Rightarrow> (nat \<times> nat \<times> nat \<times> nat) list"
where
  "walker_spec e =
     (case e of (e0, e1, e2, e3) \<Rightarrow>
        concat (map (\<lambda>i3.
          concat (map (\<lambda>i2.
            concat (map (\<lambda>i1.
              map (\<lambda>i0. (i0, i1, i2, i3)) (upto_ne e0))
            (upto_ne e1)))
          (upto_ne e2)))
        (upto_ne e3)))"

definition offset_spec ::
  "size_t \<times> size_t \<times> size_t \<times> size_t \<Rightarrow> nat \<times> nat \<times> nat \<times> nat \<Rightarrow> nat"
where
  "offset_spec s idx =
     (case s of (s0, s1, s2, s3) \<Rightarrow> case idx of (i0, i1, i2, i3) \<Rightarrow>
        i3 * unat s3 + i2 * unat s2 + i1 * unat s1 + i0 * unat s0)"

text \<open>
  The encodings the decoder reads in place, the bytes it reads for one element, and a walk
  that stays inside the buffer.
\<close>

definition decodable :: "ggml_type \<Rightarrow> bool" where
  "decodable ty =
     (ty = GGML_TYPE_F16 \<or> ty = GGML_TYPE_F32 \<or> ty = GGML_TYPE_I32 \<or> ty = GGML_TYPE_I16
      \<or> ty = GGML_TYPE_I8)"

definition element_width :: "ggml_type \<Rightarrow> nat" where
  "element_width ty =
     (if ty = GGML_TYPE_F32 \<or> ty = GGML_TYPE_I32 then 4
      else if ty = GGML_TYPE_F16 \<or> ty = GGML_TYPE_I16 then 2
      else 1)"

definition in_bounds :: "ggml_tensor \<Rightarrow> uint8_t list \<Rightarrow> bool" where
  "in_bounds t buf =
     list_all (\<lambda>idx. unat (byte_offset (nb t) idx) + element_width (type t) \<le> length buf)
       (walker_spec (ne t))"

text \<open>The data rows of a stream.\<close>

fun data_rows :: "csv_line list \<Rightarrow> csv_row list" where
  "data_rows [] = []"
| "data_rows (Text s # ls) = data_rows ls"
| "data_rows (Row r # ls) = r # data_rows ls"

text \<open>The rows of a list of elements, stopping at the first one that cannot be read.\<close>

fun collect :: "('a \<Rightarrow> error + 'b) \<Rightarrow> 'a list \<Rightarrow> error + 'b list" where
  "collect f [] = Inr []"
| "collect f (x # xs) =
     (case f x of
        Inl e \<Rightarrow> Inl e
      | Inr y \<Rightarrow> (case collect f xs of Inl e \<Rightarrow> Inl e | Inr ys \<Rightarrow> Inr (y # ys)))"

definition put_lines :: "ofstream \<Rightarrow> csv_line list \<Rightarrow> ofstream" where
  "put_lines csv ls = (if failbit csv then csv else csv\<lparr>content := content csv @ ls\<rparr>)"

text \<open>
  The rows of a tensor: each multi-index of the walk, in order, gives the row of its
  element; the first element that cannot be decoded stops the process.
\<close>

definition tensor_rows ::
  "ggml_api \<Rightarrow> uint8_t list \<Rightarrow> size_t \<Rightarrow> ggml_tensor \<Rightarrow> error + csv_row list"
where
  "tensor_rows api buf id0 t =
     collect (element_row api buf id0 t (unquantized api buf t)) (walker_spec (ne t))"

subsection \<open>Concrete inputs\<close>

text \<open>
  A stand-in for the collaborators, to run the definitions on concrete inputs: its block
  decoder returns the slot numbers \<open>0, 1, 2, ...\<close> as values, so that a read shows the
  slot it took; its vector doubles its capacity; its byte footprint is the size of the
  backing store. The theorems below hold for every collaborator.
\<close>

definition sample_api :: ggml_api where
  "sample_api =
     \<lparr>ggml_fp16_to_fp32 = (\<lambda>h. push_bit 13 (ucast h)),
      float_of_int = (\<lambda>i. word_of_int i),
      to_float = (\<lambda>ty buf n. map of_nat [0 ..< n]),
      ggml_type_name = (\<lambda>ty. if ty = GGML_TYPE_F32 then ''f32'' else ''other''),
      ggml_op_desc = (\<lambda>t. ''ADD''),
      ggml_nbytes = (\<lambda>t. length (data t)),
      show_float = (\<lambda>v. decimal (unat v)),
      vector_growth = (\<lambda>c n. 2 * c)\<rparr>"

text \<open>A host-resident float32 tensor of shape (2,3,1,1), contiguous, over 24 bytes.\<close>

definition tensor_2x3 :: ggml_tensor where
  "tensor_2x3 =
     \<lparr>type = GGML_TYPE_F32, ne = (2, 3, 1, 1), nb = (4, 8, 24, 24), name = ''l_out-3'',
      is_host = True, data = map of_nat [0 ..< 24]\<rparr>"

text \<open>The same tensor in device memory.\<close>

definition tensor_2x3_device :: ggml_tensor where
  "tensor_2x3_device = tensor_2x3\<lparr>is_host := False\<rparr>"

text \<open>
  A block-quantized tensor of one block: 32 elements in 18 bytes, as the 4-bit encoding
  with enum number 2 packs them; its stride \<open>nb0\<close> is the size of a block.
\<close>

definition tensor_q4 :: ggml_tensor where
  "tensor_q4 =
     \<lparr>type = GGML_TYPE_QUANT 2, ne = (32, 1, 1, 1), nb = (18, 18, 18, 18),
      name = ''l_out-0'', is_host = True, data = replicate 18 0\<rparr>"

definition stream_open :: ofstream where
  "stream_open = init_csv_columns (ofstream_open True)"

definition session_0 :: session where
  "session_0 = session_start stream_open (LLM_ARCH_OTHER 0)"

text \<open>Eight bytes to decode: a float32 at 0, a float16 at 2, signed integers at 4.\<close>

definition bytes_demo :: "uint8_t list" where
  "bytes_demo = [0x00, 0x00, 0x80, 0x3F, 0xFE, 0xFF, 0xFF, 0xFF]"

text \<open>A float32 tensor with no element: its first extent is 0.\<close>

definition tensor_empty :: ggml_tensor where
  "tensor_empty =
     \<lparr>type = GGML_TYPE_F32, ne = (0, 3, 1, 1), nb = (4, 0, 0, 0), name = ''l_out-3'',
      is_host = True, data = []\<rparr>"

text \<open>A host-resident float32 tensor of one element, the float 1.0.\<close>

definition tensor_one :: ggml_tensor where
  "tensor_one =
     \<lparr>type = GGML_TYPE_F32, ne = (1, 1, 1, 1), nb = (4, 4, 4, 4), name = ''l_out-0'',
      is_host = True, data = [0x00, 0x00, 0x80, 0x3F]\<rparr>"

text \<open>The block-quantized tensor in device memory.\<close>

definition tensor_q4_device :: ggml_tensor where
  "tensor_q4_device = tensor_q4\<lparr>is_host := False\<rparr>"

text \<open>A graph of three nodes: the Ask phase accepts the first and the third.\<close>

definition graph_3 :: "ggml_tensor list" where
  "graph_3 = [tensor_2x3, tensor_2x3\<lparr>name := ''attn_norm''\<rparr>, tensor_q4]"

text \<open>A graph of two nodes, both accepted by the Ask phase and both serialized.\<close>

definition graph_2 :: "ggml_tensor list" where
  "graph_2 = [tensor_2x3, tensor_one]"

text \<open>A start of the program whose graph is the one block-quantized node.\<close>

definition env_q4 :: environment where
  "env_q4 =
     \<lparr>parse_ok = True, open_ok = True, init_arch = Some (LLM_ARCH_OTHER 0),
      graph = [tensor_q4], decode_ret = 0\<rparr>"

text \<open>A second block decoder, which writes nothing.\<close>

definition empty_decoder :: "ggml_type \<Rightarrow> uint8_t list \<Rightarrow> nat \<Rightarrow> float32 list" where
  "empty_decoder ty buf n = []"

text \<open>A start of the program at which the output file cannot be opened.\<close>

definition env_open_fails :: environment where
  "env_open_fails =
     \<lparr>parse_ok = True, open_ok = False, init_arch = Some (LLM_ARCH_OTHER 0),
      graph = [tensor_2x3], decode_ret = 0\<rparr>"

subsection \<open>Runs that differ in the output stream only\<close>

text \<open>
  Two states of the callback that agree on everything but the output stream, and what
  the caller of \<^verbatim>\<open>main\<close> observes of a run: the exit status, the error messages and
  the final counter.
\<close>

definition same_run :: "session \<Rightarrow> session \<Rightarrow> bool" where
  "same_run st1 st2 =
     (id_static st1 = id_static st2 \<and> cb_data st1 = cb_data st2
      \<and> g_model_arch st1 = g_model_arch st2)"

definition verdict :: "error + exit_state \<Rightarrow> error + (int \<times> string list \<times> size_t)" where
  "verdict r = map_sum id (\<lambda>x. (exit_code x, log_err x, last_id x)) r"

section \<open>Properties\<close>

subsection \<open>Loops and walks\<close>

lemma for_each_append:
  "for_each (xs @ ys) body s =
     (case for_each xs body s of Inl e \<Rightarrow> Inl e | Inr s' \<Rightarrow> for_each ys body s')"
  by (induction xs arbitrary: s) (auto split: sum.splits)

lemma for_each_map: "for_each (map g xs) body = for_each xs (\<lambda>x. body (g x))"
proof
  fix s show "for_each (map g xs) body s = for_each xs (\<lambda>x. body (g x)) s"
    by (induction xs arbitrary: s) (auto split: sum.splits)
qed

lemma for_each_concat:
  "for_each (concat (map f xs)) body = for_each xs (\<lambda>x. for_each (f x) body)"
proof
  fix s show "for_each (concat (map f xs)) body s = for_each xs (\<lambda>x. for_each (f x) body) s"
    by (induction xs arbitrary: s) (auto simp: for_each_append split: sum.splits)
qed

lemma print_walk:
  "ggml_print_tensor_to_csv api csv buf id0 t =
     for_each (walker_spec (ne t)) (write_element api buf id0 t (unquantized api buf t)) csv"
  by (simp add: ggml_print_tensor_to_csv_def walker_spec_def for_each_concat for_each_map
      Let_def split: prod.splits)

lemma put_lines_Nil: "put_lines csv [] = csv"
  by (simp add: put_lines_def)

lemma put_lines_Cons: "put_lines (put_line csv l) ls = put_lines csv (l # ls)"
  by (simp add: put_lines_def put_line_def)

lemma for_each_collect:
  "for_each xs (\<lambda>x c. map_sum id (\<lambda>r. put_line c (Row r)) (f x)) csv =
     map_sum id (\<lambda>rs. put_lines csv (map Row rs)) (collect f xs)"
proof (induction xs arbitrary: csv)
  case Nil
  show ?case by (simp add: put_lines_Nil)
next
  case (Cons x xs)
  show ?case
  proof (cases "f x")
    case (Inl e)
    then show ?thesis by simp
  next
    case (Inr r)
    with Cons.IH [of "put_line csv (Row r)"] show ?thesis
      by (cases "collect f xs") (simp_all add: put_lines_Cons)
  qed
qed

lemma print_collect:
  "ggml_print_tensor_to_csv api csv buf id0 t =
     map_sum id (\<lambda>rs. put_lines csv (map Row rs))
       (tensor_rows api buf id0 t)"
  unfolding print_walk write_element_def tensor_rows_def by (rule for_each_collect)

lemma collect_list_all2:
  "collect f xs = Inr ys \<Longrightarrow> list_all2 (\<lambda>x y. f x = Inr y) xs ys"
  by (induction xs arbitrary: ys) (auto split: sum.splits)

lemma collect_length: "collect f xs = Inr ys \<Longrightarrow> length ys = length xs"
  by (drule collect_list_all2) (simp add: list_all2_lengthD)

lemma collect_total:
  "list_all (\<lambda>x. \<not> isl (f x)) xs \<Longrightarrow> \<exists>ys. collect f xs = Inr ys"
  by (induction xs) (auto simp: isl_def split: sum.splits)

lemma length_upto_ne: "length (upto_ne e) = nat (sint e)"
  by (simp add: upto_ne_def)

lemma length_concat_const:
  "(\<And>x. x \<in> set xs \<Longrightarrow> length (f x) = n) \<Longrightarrow> length (concat (map f xs)) = length xs * n"
  by (induction xs) auto

lemma length_walker_spec:
  "length (walker_spec (e0, e1, e2, e3)) =
     nat (sint e0) * nat (sint e1) * nat (sint e2) * nat (sint e3)"
  by (simp add: walker_spec_def length_concat_const length_upto_ne mult_ac)

lemma distinct_concat_map:
  assumes "distinct xs"
    and "\<And>x. x \<in> set xs \<Longrightarrow> distinct (f x)"
    and "\<And>x y z. x \<in> set xs \<Longrightarrow> y \<in> set xs \<Longrightarrow> z \<in> set (f x) \<Longrightarrow> z \<in> set (f y) \<Longrightarrow> x = y"
  shows "distinct (concat (map f xs))"
  using assms
proof (induction xs)
  case Nil
  show ?case by simp
next
  case (Cons a xs)
  have d: "distinct (concat (map f xs))"
    using Cons.prems by (intro Cons.IH) auto
  have "set (f a) \<inter> set (concat (map f xs)) = {}"
  proof (rule ccontr)
    assume "set (f a) \<inter> set (concat (map f xs)) \<noteq> {}"
    then obtain z y where "z \<in> set (f a)" "y \<in> set xs" "z \<in> set (f y)" by auto
    with Cons.prems(3) [of a y z] have "a = y" by simp
    with \<open>y \<in> set xs\<close> Cons.prems(1) show False by simp
  qed
  with d Cons.prems(2) [of a] show ?case by simp
qed

lemma set_walker_spec:
  "set (walker_spec (e0, e1, e2, e3)) =
     {(i0, i1, i2, i3). i0 < nat (sint e0) \<and> i1 < nat (sint e1) \<and> i2 < nat (sint e2) \<and>
        i3 < nat (sint e3)}"
  by (force simp: walker_spec_def upto_ne_def image_iff)

lemma distinct_walker_spec: "distinct (walker_spec e)"
proof (cases e)
  case (fields e0 e1 e2 e3)
  have l1: "distinct (map (\<lambda>i0. (i0, i1, i2, i3)) (upto_ne e0))" for i1 i2 i3 :: nat
    by (simp add: distinct_map inj_on_def upto_ne_def)
  have l2: "distinct (concat (map (\<lambda>i1. map (\<lambda>i0. (i0, i1, i2, i3)) (upto_ne e0)) (upto_ne e1)))"
    for i2 i3 :: nat
    by (rule distinct_concat_map) (use l1 in \<open>auto simp: upto_ne_def\<close>)
  have l3: "distinct (concat (map (\<lambda>i2. concat (map (\<lambda>i1. map (\<lambda>i0. (i0, i1, i2, i3))
              (upto_ne e0)) (upto_ne e1))) (upto_ne e2)))" for i3 :: nat
    by (rule distinct_concat_map) (use l2 in \<open>auto simp: upto_ne_def\<close>)
  show ?thesis
    unfolding fields walker_spec_def prod.case
    by (rule distinct_concat_map) (use l3 in \<open>auto simp: upto_ne_def\<close>)
qed

lemma unat_byte_offset:
  "unat (byte_offset s idx) = offset_spec s idx mod 2 ^ 64"
  by (cases s; cases idx)
     (simp add: byte_offset_def offset_spec_def unat_word_ariths unat_of_nat mod_simps)

subsection \<open>Bytes and the decoder\<close>

lemma byte_bound: "uint (a :: 8 word) < 256"
  using uint_lt2p [of a] by simp

lemma uint_le_word_4:
  "uint (le_word [a, b, c, d] :: 32 word) =
     uint a + 256 * uint b + 65536 * uint c + 16777216 * uint d"
  using byte_bound [of a] byte_bound [of b] byte_bound [of c] byte_bound [of d]
  by (simp add: push_bit_eq_mult uint_word_ariths uint_up_ucast is_up)

lemma uint_le_word_2:
  "uint (le_word [a, b] :: 16 word) = uint a + 256 * uint b"
  using byte_bound [of a] byte_bound [of b]
  by (simp add: push_bit_eq_mult uint_word_ariths uint_up_ucast is_up)

lemma le_word_1: "(le_word [a] :: 8 word) = a"
  by simp

lemma drop_step: "i < length buf \<Longrightarrow> drop i buf = buf ! i # drop (Suc i) buf"
  by (simp add: Cons_nth_drop_Suc)

lemma take_drop_1:
  "i + 1 \<le> length buf \<Longrightarrow> take 1 (drop i buf) = [buf ! i]"
  by (simp add: drop_step [of i])

lemma take_drop_2:
  "i + 2 \<le> length buf \<Longrightarrow> take 2 (drop i buf) = [buf ! i, buf ! (i + 1)]"
  by (simp add: drop_step [of i] drop_step [of "Suc i"] numeral_2_eq_2)

lemma take_drop_4:
  "i + 4 \<le> length buf \<Longrightarrow>
   take 4 (drop i buf) = [buf ! i, buf ! (i + 1), buf ! (i + 2), buf ! (i + 3)]"
  by (simp add: drop_step [of i] drop_step [of "Suc i"] drop_step [of "Suc (Suc i)"]
      drop_step [of "Suc (Suc (Suc i))"] eval_nat_numeral)

lemma unquantized_None: "\<not> ggml_is_quantized (type t) \<Longrightarrow> unquantized api buf t = None"
  by (simp add: unquantized_def)

lemma decodable_not_quantized: "decodable ty \<Longrightarrow> \<not> ggml_is_quantized ty"
  by (auto simp: decodable_def)

lemma decode_in_bounds:
  "decodable ty \<Longrightarrow> i + element_width ty \<le> length buf \<Longrightarrow>
   \<not> isl (decode_element api ty buf None i)"
  by (auto simp: decodable_def element_width_def decode_element_def load_bytes_def)

lemma rows_total:
  assumes "decodable (type t)" and "in_bounds t buf"
  shows "\<exists>rs. tensor_rows api buf id0 t = Inr rs"
  unfolding tensor_rows_def
proof (rule collect_total)
  have "\<not> isl (element_row api buf id0 t (unquantized api buf t) idx)"
    if "unat (byte_offset (nb t) idx) + element_width (type t) \<le> length buf" for idx
    using decode_in_bounds [OF assms(1) that, of api]
    by (simp add: element_row_def unquantized_None decodable_not_quantized assms(1) isl_map_sum)
  with assms(2)
  show "list_all (\<lambda>x. \<not> isl (element_row api buf id0 t (unquantized api buf t) x))
          (walker_spec (ne t))"
    by (simp add: in_bounds_def list_all_iff)
qed

lemma element_row_id: "element_row api buf id0 t u idx = Inr r \<Longrightarrow> row_id r = id0"
  by (cases "decode_element api (type t) buf u (unat (byte_offset (nb t) idx))")
     (auto simp: element_row_def)

lemma tensor_rows_all2:
  "tensor_rows api buf id0 t = Inr rs \<Longrightarrow>
   list_all2 (\<lambda>idx r. element_row api buf id0 t (unquantized api buf t) idx = Inr r)
     (walker_spec (ne t)) rs"
  unfolding tensor_rows_def by (rule collect_list_all2)

lemma tensor_rows_length:
  "tensor_rows api buf id0 t = Inr rs \<Longrightarrow> length rs = length (walker_spec (ne t))"
  unfolding tensor_rows_def by (rule collect_length)

lemma element_row_fields:
  assumes "element_row api buf id0 t u idx = Inr r"
  shows "row_curr_ne r = index_string idx"
    and "decode_element api (type t) buf u (offset_spec (nb t) idx mod 2 ^ 64) = Inr (row_value r)"
  using assms
  by (cases "decode_element api (type t) buf u (unat (byte_offset (nb t) idx))";
      auto simp: element_row_def unat_byte_offset)+

lemma rows_follow_walk:
  assumes "list_all2 (\<lambda>idx r. element_row api buf id0 t u idx = Inr r) idxs rs"
  shows "map row_curr_ne rs = map index_string idxs
         \<and> list_all2 (\<lambda>idx r. decode_element api (type t) buf u
                                  (offset_spec (nb t) idx mod 2 ^ 64) = Inr (row_value r)) idxs rs"
  using assms
  by (induction idxs rs rule: list_all2_induct) (auto dest: element_row_fields)

lemma collect_row_ids:
  assumes "collect (element_row api buf id0 t u) idxs = Inr rs"
  shows "list_all (\<lambda>r. row_id r = id0) rs"
  using collect_list_all2 [OF assms]
  by (induction idxs rs rule: list_all2_induct) (auto dest: element_row_id)

lemma tensor_rows_ids:
  "tensor_rows api buf id0 t = Inr rs \<Longrightarrow> list_all (\<lambda>r. row_id r = id0) rs"
  unfolding tensor_rows_def by (rule collect_row_ids)

subsection \<open>The callback, unfolded\<close>

lemma strncmp_zero_iff:
  "list_all (\<lambda>c. of_char c \<noteq> (0::nat)) p \<Longrightarrow> n \<le> length p \<Longrightarrow>
   (strncmp s p n = 0) = (take n s = take n p)"
proof (induction n arbitrary: s p)
  case 0
  show ?case by simp
next
  case (Suc n)
  from Suc.prems obtain c p' where p: "p = c # p'" and c: "of_char c \<noteq> (0::nat)"
    and p': "list_all (\<lambda>c. of_char c \<noteq> (0::nat)) p'" "n \<le> length p'"
    by (cases p) auto
  show ?case
  proof (cases s)
    case Nil
    with p c show ?thesis by (simp add: c_char_at_def)
  next
    case (Cons d s')
    show ?thesis
    proof (cases "d = c")
      case True
      with Cons p c Suc.IH [OF p', of s'] show ?thesis
        by (simp add: c_char_at_def)
    next
      case False
      then have "(of_char d :: nat) \<noteq> of_char c" by simp
      with Cons p False show ?thesis by (simp add: c_char_at_def)
    qed
  qed
qed

lemma ask_phase_eq:
  "ask_phase arch nm =
     (take 5 nm = ''l_out''
      \<or> arch = LLM_ARCH_WAVTOKENIZER_DEC
        \<and> (take 10 nm = ''posnet_out'' \<or> take 12 nm \<noteq> ''convnext_out''))"
  by (simp add: ask_phase_def strncmp_zero_iff)

lemma ask_eq:
  "ggml_eval_layer_output api t True st = Inr (ask_phase (g_model_arch st) (name t), st)"
  by (simp add: ggml_eval_layer_output_def)

lemma deliver_eq:
  "ggml_eval_layer_output api t False st =
     (if ggml_is_quantized (type t)
      then Inr (True, (transfer api t st)\<lparr>id_static := id_static st + 1\<rparr>)
      else map_sum id
             (\<lambda>rs. (True, (transfer api t st)
                       \<lparr>out_csv := put_lines (out_csv st) (map Row rs),
                        id_static := id_static st + 1\<rparr>))
             (tensor_rows api (host_view t (transfer api t st)) (id_static st) t))"
proof -
  have tr: "out_csv (transfer api t st) = out_csv st"
    "id_static (transfer api t st) = id_static st"
    by (simp_all add: transfer_def)
  show ?thesis
    by (cases "tensor_rows api (host_view t (transfer api t st)) (id_static st) t")
       (simp_all add: ggml_eval_layer_output_def print_collect tr Let_def)
qed

lemma put_lines_content:
  "\<not> failbit csv \<Longrightarrow> content (put_lines csv ls) = content csv @ ls"
  by (simp add: put_lines_def)

lemma transfer_fields:
  "out_csv (transfer api t st) = out_csv st"
  "id_static (transfer api t st) = id_static st"
  "g_model_arch (transfer api t st) = g_model_arch st"
  by (simp_all add: transfer_def)

lemma deliver_cases:
  assumes "ggml_eval_layer_output api t False st = Inr (b, st')"
  obtains (quantized) "ggml_is_quantized (type t)" "b = True"
      "st' = (transfer api t st)\<lparr>id_static := id_static st + 1\<rparr>"
    | (serialized) rs where "\<not> ggml_is_quantized (type t)" "b = True"
      "tensor_rows api (host_view t (transfer api t st)) (id_static st) t = Inr rs"
      "st' = (transfer api t st)\<lparr>out_csv := put_lines (out_csv st) (map Row rs),
                id_static := id_static st + 1\<rparr>"
proof (cases "ggml_is_quantized (type t)")
  case True
  with assms show ?thesis by (intro quantized) (auto simp: deliver_eq)
next
  case False
  with assms show ?thesis
    by (cases "tensor_rows api (host_view t (transfer api t st)) (id_static st) t")
       (auto simp: deliver_eq intro: serialized)
qed

lemma deliver_returns:
  assumes "decodable (type t)" and "in_bounds t (host_view t (transfer api t st))"
  shows "\<exists>st'. ggml_eval_layer_output api t False st = Inr (True, st')"
proof -
  from rows_total [OF assms, of api "id_static st"] obtain rs where
    "tensor_rows api (host_view t (transfer api t st)) (id_static st) t = Inr rs" by blast
  then show ?thesis
    using assms(1) by (simp add: deliver_eq decodable_not_quantized)
qed

lemma deliver_counter:
  "ggml_eval_layer_output api t False st = Inr (b, st') \<Longrightarrow>
   b = True \<and> id_static st' = id_static st + 1 \<and> g_model_arch st' = g_model_arch st"
  by (erule deliver_cases) (simp_all add: transfer_fields)

lemma deliver_cb_data:
  "ggml_eval_layer_output api t False st = Inr (b, st') \<Longrightarrow>
   cb_data st' = cb_data (transfer api t st)"
  by (erule deliver_cases) simp_all

lemma deliver_failbit:
  "failbit (out_csv st) \<Longrightarrow> ggml_eval_layer_output api t False st = Inr (b, st') \<Longrightarrow>
   out_csv st' = out_csv st"
  by (erule deliver_cases) (simp_all add: transfer_fields put_lines_def)

lemma deliver_rows:
  assumes "ggml_eval_layer_output api t False st = Inr (b, st')"
  shows "\<exists>rows. content (out_csv st') = content (out_csv st) @ map Row rows
           \<and> list_all (\<lambda>r. row_id r = id_static st) rows
           \<and> (if failbit (out_csv st) \<or> ggml_is_quantized (type t) then rows = []
              else tensor_rows api (host_view t (transfer api t st)) (id_static st) t = Inr rows)"
  using assms
proof (cases rule: deliver_cases)
  case quantized
  then show ?thesis by (intro exI [of _ "[]"]) (simp add: transfer_fields)
next
  case (serialized rs)
  show ?thesis
  proof (cases "failbit (out_csv st)")
    case True
    with serialized show ?thesis
      by (intro exI [of _ "[]"]) (simp add: put_lines_def)
  next
    case False
    with serialized tensor_rows_ids [OF serialized(3)] show ?thesis
      by (intro exI [of _ rs]) (simp add: put_lines_content)
  qed
qed

lemma write_element_without_decoder:
  "write_element (api\<lparr>to_float := f\<rparr>) buf id0 t None = write_element api buf id0 t None"
  by (intro ext) (simp add: write_element_def element_row_def decode_element_def)

lemma print_without_decoder:
  "\<not> ggml_is_quantized (type t) \<Longrightarrow>
   ggml_print_tensor_to_csv (api\<lparr>to_float := f\<rparr>) csv buf id0 t =
   ggml_print_tensor_to_csv api csv buf id0 t"
  by (simp add: print_walk unquantized_def write_element_without_decoder)

lemma transfer_without_decoder:
  "transfer (api\<lparr>to_float := f\<rparr>) t st = transfer api t st"
  by (simp add: transfer_def resize_def)

lemma callback_without_decoder:
  "ggml_eval_layer_output (api\<lparr>to_float := f\<rparr>) t ask st = ggml_eval_layer_output api t ask st"
  by (cases "ggml_is_quantized (type t)")
     (simp_all add: ggml_eval_layer_output_def transfer_without_decoder print_without_decoder)

lemma length_tensor_get:
  "length (elems (ggml_backend_tensor_get t (resize api v n) n)) = n"
  by (simp add: ggml_backend_tensor_get_def resize_def)

lemma capacity_resize:
  "capacity v \<le> capacity (resize api v n) \<and> n \<le> capacity (resize api v n)"
  by (auto simp: resize_def)

lemma transfer_capacity:
  "capacity (cb_data st) \<le> capacity (cb_data (transfer api t st))"
  using capacity_resize [of "cb_data st" api "ggml_nbytes api t"]
  by (simp add: transfer_def ggml_backend_tensor_get_def)

subsection \<open>The graph run\<close>

lemma sched_counter:
  "sched_eval api ts st = Inr st' \<Longrightarrow>
   id_static st' =
     id_static st + of_nat (length (filter (\<lambda>t. ask_phase (g_model_arch st) (name t)) ts))
   \<and> g_model_arch st' = g_model_arch st"
proof (induction ts arbitrary: st)
  case Nil
  then show ?case by simp
next
  case (Cons t ts)
  show ?case
  proof (cases "ask_phase (g_model_arch st) (name t)")
    case False
    with Cons.prems have "sched_eval api ts st = Inr st'"
      by (simp add: ask_eq)
    from Cons.IH [OF this] False show ?thesis by simp
  next
    case True
    with Cons.prems obtain b st2 where
      d: "ggml_eval_layer_output api t False st = Inr (b, st2)"
      and r: "sched_eval api ts st2 = Inr st'"
      by (auto simp: ask_eq split: sum.splits prod.splits if_splits dest: deliver_counter)
    from deliver_counter [OF d] Cons.IH [OF r] True show ?thesis
      by simp
  qed
qed

lemma sched_eval_append:
  "sched_eval api (ts @ us) st =
     (case sched_eval api ts st of Inl e \<Rightarrow> Inl e | Inr s \<Rightarrow> sched_eval api us s)"
proof (induction ts arbitrary: st)
  case Nil
  show ?case by simp
next
  case (Cons t ts)
  show ?case
  proof (cases "ask_phase (g_model_arch st) (name t)")
    case False
    then show ?thesis by (simp add: ask_eq Cons.IH)
  next
    case True
    show ?thesis
    proof (cases "ggml_eval_layer_output api t False st")
      case (Inl e)
      with True show ?thesis by (simp add: ask_eq)
    next
      case (Inr p)
      obtain b s where p: "p = (b, s)" by (cases p)
      from Inr p deliver_counter [of api t st b s] have "b" by simp
      with True Inr p show ?thesis by (simp add: ask_eq Cons.IH)
    qed
  qed
qed

lemma sched_without_decoder:
  "sched_eval (api\<lparr>to_float := f\<rparr>) ts st = sched_eval api ts st"
  by (induction ts arbitrary: st)
     (simp_all add: callback_without_decoder cong: sum.case_cong prod.case_cong if_cong)

lemma main_without_decoder:
  "main (api\<lparr>to_float := f\<rparr>) env = main api env"
  by (simp add: main_def run_def sched_without_decoder cong: option.case_cong)

lemma sched_capacity:
  "sched_eval api ts st = Inr st' \<Longrightarrow> capacity (cb_data st) \<le> capacity (cb_data st')"
proof (induction ts arbitrary: st)
  case Nil
  then show ?case by simp
next
  case (Cons t ts)
  show ?case
  proof (cases "ask_phase (g_model_arch st) (name t)")
    case False
    with Cons.prems have "sched_eval api ts st = Inr st'"
      by (simp add: ask_eq)
    from Cons.IH [OF this] show ?thesis .
  next
    case True
    with Cons.prems obtain b st2 where
      d: "ggml_eval_layer_output api t False st = Inr (b, st2)"
      and r: "sched_eval api ts st2 = Inr st'"
      by (auto simp: ask_eq split: sum.splits prod.splits if_splits dest: deliver_counter)
    from deliver_cb_data [OF d] transfer_capacity [of st api t] Cons.IH [OF r]
    show ?thesis by simp
  qed
qed

lemma sched_failbit:
  "failbit (out_csv st) \<Longrightarrow> sched_eval api ts st = Inr st' \<Longrightarrow> out_csv st' = out_csv st"
proof (induction ts arbitrary: st)
  case Nil
  then show ?case by simp
next
  case (Cons t ts)
  show ?case
  proof (cases "ask_phase (g_model_arch st) (name t)")
    case False
    with Cons.prems have "sched_eval api ts st = Inr st'"
      by (simp add: ask_eq)
    from Cons.IH [OF Cons.prems(1) this] show ?thesis .
  next
    case True
    with Cons.prems obtain b st2 where
      d: "ggml_eval_layer_output api t False st = Inr (b, st2)"
      and r: "sched_eval api ts st2 = Inr st'"
      by (auto simp: ask_eq split: sum.splits prod.splits if_splits dest: deliver_counter)
    from deliver_failbit [OF Cons.prems(1) d] have o: "out_csv st2 = out_csv st" .
    with Cons.prems(1) Cons.IH [OF _ r] show ?thesis by simp
  qed
qed

lemma same_run_transfer:
  "same_run st1 st2 \<Longrightarrow>
   same_run (transfer api t st1) (transfer api t st2)
   \<and> host_view t (transfer api t st1) = host_view t (transfer api t st2)"
  by (simp add: same_run_def transfer_def host_view_def)

lemma deliver_same_run:
  assumes "same_run st1 st2"
  shows "rel_sum (=) (rel_prod (=) same_run)
           (ggml_eval_layer_output api t False st1) (ggml_eval_layer_output api t False st2)"
proof -
  note tr = same_run_transfer [OF assms, of api t]
  have id: "id_static st1 = id_static st2"
    using assms by (simp add: same_run_def)
  show ?thesis
  proof (cases "tensor_rows api (host_view t (transfer api t st2)) (id_static st2) t")
    case (Inl e)
    with tr id show ?thesis by (simp add: deliver_eq same_run_def)
  next
    case (Inr rs)
    with tr id show ?thesis by (simp add: deliver_eq same_run_def)
  qed
qed

lemma sched_same_run:
  "same_run st1 st2 \<Longrightarrow>
   rel_sum (=) same_run (sched_eval api ts st1) (sched_eval api ts st2)"
proof (induction ts arbitrary: st1 st2)
  case Nil
  then show ?case by simp
next
  case (Cons t ts)
  have arch: "g_model_arch st1 = g_model_arch st2"
    using Cons.prems by (simp add: same_run_def)
  show ?case
  proof (cases "ask_phase (g_model_arch st2) (name t)")
    case False
    with arch Cons.IH [OF Cons.prems] show ?thesis by (simp add: ask_eq)
  next
    case True
    from deliver_same_run [OF Cons.prems, of api t]
    consider (stopped) e where
        "ggml_eval_layer_output api t False st1 = Inl e"
        "ggml_eval_layer_output api t False st2 = Inl e"
      | (returned) b s1 s2 where
        "ggml_eval_layer_output api t False st1 = Inr (b, s1)"
        "ggml_eval_layer_output api t False st2 = Inr (b, s2)" "same_run s1 s2"
      by (cases "ggml_eval_layer_output api t False st1";
          cases "ggml_eval_layer_output api t False st2") auto
    then show ?thesis
    proof cases
      case stopped
      with True arch show ?thesis by (simp add: ask_eq)
    next
      case returned
      with True arch Cons.IH [OF returned(3)] show ?thesis
        by (simp add: ask_eq)
    qed
  qed
qed

lemma main_verdict_open:
  "verdict (main api (env\<lparr>open_ok := b\<rparr>)) = verdict (main api env)"
proof (cases "parse_ok env")
  case False
  then show ?thesis by (simp add: main_def verdict_def)
next
  case True
  show ?thesis
  proof (cases "init_arch env")
    case None
    with True show ?thesis by (simp add: main_def verdict_def Let_def)
  next
    case (Some arch)
    let ?s1 = "session_start (init_csv_columns (ofstream_open b)) arch"
    let ?s2 = "session_start (init_csv_columns (ofstream_open (open_ok env))) arch"
    have "same_run ?s1 ?s2"
      by (simp add: same_run_def session_start_def)
    from sched_same_run [OF this, of api "graph env"]
    consider (stopped) e where
        "sched_eval api (graph env) ?s1 = Inl e" "sched_eval api (graph env) ?s2 = Inl e"
      | (returned) r1 r2 where
        "sched_eval api (graph env) ?s1 = Inr r1" "sched_eval api (graph env) ?s2 = Inr r2"
        "same_run r1 r2"
      by (cases "sched_eval api (graph env) ?s1"; cases "sched_eval api (graph env) ?s2") auto
    then show ?thesis
    proof cases
      case stopped
      with True Some show ?thesis
        by (simp add: main_def verdict_def Let_def run_def)
    next
      case returned
      with True Some show ?thesis
        by (simp add: main_def verdict_def Let_def run_def same_run_def)
    qed
  qed
qed

lemma main_exit_zero:
  assumes "parse_ok env" and "init_arch env = Some arch" and "decode_ret env = 0"
    and "main api env = Inr r"
  shows "exit_code r = 0 \<and> log_err r = []"
  using assms
  by (cases "sched_eval api (graph env)
        (session_start (init_csv_columns (ofstream_open (open_ok env))) arch)")
     (auto simp: main_def run_def Let_def)

lemma main_failed_open_content:
  assumes "\<not> open_ok env" and "main api env = Inr r"
  shows "content (csv_file r) = []"
proof (cases "parse_ok env")
  case False
  with assms(2) show ?thesis by (auto simp: main_def)
next
  case True
  show ?thesis
  proof (cases "init_arch env")
    case None
    with True assms show ?thesis
      by (auto simp: main_def Let_def init_csv_columns_def put_line_def ofstream_open_def)
  next
    case (Some arch)
    let ?csv = "init_csv_columns (ofstream_open (open_ok env))"
    have c: "?csv = \<lparr>failbit = True, content = []\<rparr>"
      using assms(1) by (simp add: init_csv_columns_def put_line_def ofstream_open_def)
    from True Some assms(2) obtain st' where
      s: "sched_eval api (graph env) (session_start ?csv arch) = Inr st'"
      and r: "csv_file r = out_csv st'"
      by (cases "sched_eval api (graph env) (session_start ?csv arch)")
         (auto simp: main_def Let_def run_def split: if_splits)
    have "failbit (out_csv (session_start ?csv arch))"
      by (simp add: c session_start_def)
    from sched_failbit [OF this s] r c show ?thesis
      by (simp add: session_start_def)
  qed
qed

subsection \<open>The concrete inputs run\<close>

lemma render_row_sample:
  "render_row sample_api
     \<lparr>row_id = 0, row_name = ''l_out-0'', row_type = ''f32'', row_op = ''ADD'',
      row_full_ne = ''{1, 1, 1, 1}'', row_curr_ne = ''{0, 0, 0, 0}'', row_value = 7\<rparr> =
   ''0,l_out-0,f32,ADD,'' @ [CHR 0x22] @ ''{1, 1, 1, 1}'' @ [CHR 0x22] @ '','' @
   [CHR 0x22] @ ''{0, 0, 0, 0}'' @ [CHR 0x22] @ '',7'' @ [CHR 0x0A]"
  by code_simp

lemma sample_decodable: "decodable (type tensor_2x3)"
  by (simp add: decodable_def tensor_2x3_def)

lemma sample_in_bounds:
  "in_bounds tensor_2x3 (host_view tensor_2x3 (transfer sample_api tensor_2x3 session_0))"
  by code_simp

lemma sample_deliver:
  "\<exists>st'. ggml_eval_layer_output sample_api tensor_2x3 False session_0 = Inr (True, st')"
  by (rule deliver_returns [OF sample_decodable sample_in_bounds])

lemma sample_deliver_device:
  "\<exists>st'. ggml_eval_layer_output sample_api tensor_2x3_device False session_0 = Inr (True, st')"
proof -
  have "\<not> isl (ggml_eval_layer_output sample_api tensor_2x3_device False session_0)"
    by code_simp
  then show ?thesis
    using deliver_counter [of sample_api tensor_2x3_device session_0]
    by (cases "ggml_eval_layer_output sample_api tensor_2x3_device False session_0") auto
qed

lemma sample_print:
  "\<exists>csv'. ggml_print_tensor_to_csv sample_api (ofstream_open True) (data tensor_2x3) 0 tensor_2x3
      = Inr csv'"
proof -
  have "\<not> isl (ggml_print_tensor_to_csv sample_api (ofstream_open True) (data tensor_2x3) 0
           tensor_2x3)"
    by code_simp
  then show ?thesis
    by (cases "ggml_print_tensor_to_csv sample_api (ofstream_open True) (data tensor_2x3) 0
           tensor_2x3") auto
qed

lemma sample_walk:
  "map index_string (walker_spec (ne tensor_2x3)) =
     [''{0, 0, 0, 0}'', ''{1, 0, 0, 0}'', ''{0, 1, 0, 0}'', ''{1, 1, 0, 0}'',
      ''{0, 2, 0, 0}'', ''{1, 2, 0, 0}'']"
  by code_simp

lemma sample_rows_ids:
  "map_sum id (map row_id) (tensor_rows sample_api (data tensor_2x3) 0 tensor_2x3) =
     Inr [0, 0, 0, 0, 0, 0]"
  "map_sum id (map row_id) (tensor_rows sample_api (data tensor_one) 1 tensor_one) = Inr [1]"
  by code_simp+

lemma sample_graph_2:
  "\<not> isl (sched_eval sample_api graph_2 session_0)"
  "map_sum id (\<lambda>s. failbit (out_csv s)) (sched_eval sample_api [tensor_2x3] session_0) =
     Inr False"
  "length (filter (\<lambda>u. ask_phase (LLM_ARCH_OTHER 0) (name u)) [tensor_2x3]) = 1"
  "ask_phase (LLM_ARCH_OTHER 0) (name tensor_one)"
  "\<not> failbit (out_csv session_0)"
  by code_simp+

lemma sample_sched: "\<exists>st'. sched_eval sample_api graph_3 session_0 = Inr st'"
proof -
  have "\<not> isl (sched_eval sample_api graph_3 session_0)"
    by code_simp
  then show ?thesis
    by (cases "sched_eval sample_api graph_3 session_0") auto
qed

lemma sample_graph_asks:
  "length (filter (\<lambda>t. ask_phase (g_model_arch session_0) (name t)) graph_3) = 2"
  by code_simp

section \<open>The claims\<close>

subsection \<open>The Ask phase\<close>

text \<open>
  C1. The Ask phase should accept exactly the names that start with \<open>l_out\<close> and, for
  the architecture \<open>WAVTOKENIZER_DEC\<close>, those that start with \<open>posnet_out\<close> or
  \<open>convnext_out\<close>. The code does so for every other architecture (\<open>l_out-3\<close> is
  accepted, \<open>attn_norm\<close> rejected). Line 130 leaves out the comparison with 0 after the
  third \<^verbatim>\<open>strncmp\<close>, so for \<open>WAVTOKENIZER_DEC\<close> the callback accepts every name that
  does not start with \<open>convnext_out\<close>, such as \<open>attn_norm\<close>, and rejects
  \<open>convnext_out-0\<close>.
\<close>

theorem ask_phase_inverted_test:
  "ask_phase arch nm =
     (take 5 nm = ''l_out''
      \<or> arch = LLM_ARCH_WAVTOKENIZER_DEC
        \<and> (take 10 nm = ''posnet_out'' \<or> take 12 nm \<noteq> ''convnext_out''))
   \<and> ggml_eval_layer_output api t True st = Inr (ask_phase (g_model_arch st) (name t), st)
   \<and> ask_phase LLM_ARCH_WAVTOKENIZER_DEC ''attn_norm'' = True
   \<and> ask_phase LLM_ARCH_WAVTOKENIZER_DEC ''convnext_out-0'' = False
   \<and> ask_phase (LLM_ARCH_OTHER k) ''l_out-3'' = True
   \<and> ask_phase (LLM_ARCH_OTHER k) ''attn_norm'' = False"
  by (simp add: ask_phase_eq ask_eq)

subsection \<open>The parallel buffer of a block-quantized tensor\<close>

text \<open>
  C2, as amended. In this program a block-quantized tensor is never decoded and never
  walked: the Deliver phase skips it (line 144), returns true, advances the counter and
  leaves the output stream as it was, and neither the callback nor a whole run depends
  on the bulk block decoder. A tensor that does reach the walk is not block-quantized
  and has no parallel float buffer.
\<close>

theorem quantized_tensor_never_decoded:
  "(ggml_is_quantized (type t) \<longrightarrow>
      ggml_eval_layer_output api t False st =
        Inr (True, (transfer api t st)\<lparr>id_static := id_static st + 1\<rparr>)
      \<and> out_csv (transfer api t st) = out_csv st)
   \<and> ggml_eval_layer_output (api\<lparr>to_float := f\<rparr>) t ask st =
       ggml_eval_layer_output api t ask st
   \<and> main (api\<lparr>to_float := f\<rparr>) env = main api env
   \<and> (\<not> ggml_is_quantized (type t) \<longrightarrow> unquantized api buf t = None)"
  by (simp add: deliver_eq transfer_fields callback_without_decoder main_without_decoder
      unquantized_None)

theorem quantized_tensor_never_decoded_witness:
  "ggml_eval_layer_output sample_api tensor_q4 False session_0 =
     Inr (True, (transfer sample_api tensor_q4 session_0)\<lparr>id_static := id_static session_0 + 1\<rparr>)
   \<and> out_csv (transfer sample_api tensor_q4 session_0) = out_csv session_0
   \<and> main (sample_api\<lparr>to_float := empty_decoder\<rparr>) env_q4 = main sample_api env_q4
   \<and> unquantized sample_api (data tensor_2x3) tensor_2x3 = None"
proof -
  have q: "ggml_is_quantized (type tensor_q4)"
    by (simp add: tensor_q4_def)
  have n: "\<not> ggml_is_quantized (type tensor_2x3)"
    by (simp add: tensor_2x3_def)
  from quantized_tensor_never_decoded [where t = tensor_q4 and api = sample_api
      and st = session_0 and f = empty_decoder and env = env_q4 and ask = False] q
    quantized_tensor_never_decoded [where t = tensor_2x3 and api = sample_api
      and buf = "data tensor_2x3"] n
  show ?thesis by blast
qed

text \<open>
  Against C2 as stated: the program run on a graph whose one node is a block-quantized
  tensor of 32 elements delivers the node (the counter ends at 1) and writes the header
  only, also with a block decoder that produces no float at all: the tensor is not
  decoded and no element of it is read for any multi-index.
\<close>

theorem quantized_node_run_writes_header_only:
  "ggml_is_quantized (type tensor_q4)
   \<and> ggml_nelements tensor_q4 = 32
   \<and> main sample_api env_q4 =
       Inr \<lparr>exit_code = 0, log_err = [], csv_file = stream_open, last_id = 1\<rparr>
   \<and> main (sample_api\<lparr>to_float := empty_decoder\<rparr>) env_q4 =
       Inr \<lparr>exit_code = 0, log_err = [], csv_file = stream_open, last_id = 1\<rparr>
   \<and> data_rows (content stream_open) = []"
  by code_simp

subsection \<open>The sequence counter\<close>

text \<open>
  C3, as amended. The counter is never reset, and every Deliver invocation that returns
  advances it by exactly one, whether or not it serialized a row; the Ask phase leaves it
  as it is. Over a graph run it advances by the number of nodes the Ask phase accepts
  (in \<^verbatim>\<open>size_t\<close> arithmetic).
\<close>

theorem counter_counts_delivers:
  "(ggml_eval_layer_output api t False st = Inr (b, st') \<longrightarrow> id_static st' = id_static st + 1)
   \<and> (sched_eval api ts st = Inr st2 \<longrightarrow>
        id_static st2 =
          id_static st
          + of_nat (length (filter (\<lambda>t. ask_phase (g_model_arch st) (name t)) ts)))
   \<and> ggml_eval_layer_output api t True st = Inr (ask_phase (g_model_arch st) (name t), st)"
  using deliver_counter [of api t st b st'] sched_counter [of api ts st st2]
  by (simp add: ask_eq)

theorem counter_counts_delivers_witness:
  "\<exists>st' st2.
     ggml_eval_layer_output sample_api tensor_2x3 False session_0 = Inr (True, st')
     \<and> id_static st' = 1
     \<and> sched_eval sample_api graph_3 session_0 = Inr st2
     \<and> id_static st2 = 2"
proof -
  from sample_deliver obtain st' where
    d: "ggml_eval_layer_output sample_api tensor_2x3 False session_0 = Inr (True, st')" by blast
  from sample_sched obtain st2 where
    s: "sched_eval sample_api graph_3 session_0 = Inr st2" by blast
  have z: "id_static session_0 = 0"
    by (simp add: session_0_def session_start_def)
  from counter_counts_delivers [of sample_api tensor_2x3 session_0 True st' graph_3 st2]
    d s z sample_graph_asks
  show ?thesis by auto
qed

text \<open>
  Against C3 as stated: Deliver on a tensor with no element serializes no row (the stream
  stays as it was) and yet advances the counter from 0 to 1.
\<close>

theorem empty_tensor_advances_counter:
  "id_static session_0 = 0
   \<and> ggml_eval_layer_output sample_api tensor_empty False session_0 =
     Inr (True, session_0\<lparr>id_static := 1\<rparr>)"
  by code_simp

subsection \<open>A failed open\<close>

text \<open>
  C4, as amended. When the output file cannot be opened, nothing is ever written to it
  (no header, no data row), but the failure is neither checked nor reported: the graph
  runs all the same, and the exit status, the error messages and the final counter are
  those of the same start with a file that opens. Whenever parsing, initialisation and
  decoding succeed and the program returns, it exits with 0 and logs no error.
\<close>

theorem failed_open_goes_unnoticed:
  "(\<not> open_ok env \<longrightarrow>
     (main api env = Inr r \<longrightarrow> content (csv_file r) = [])
     \<and> map_sum id (\<lambda>x. (exit_code x, log_err x, last_id x)) (main api env) =
       map_sum id (\<lambda>x. (exit_code x, log_err x, last_id x))
         (main api (env\<lparr>open_ok := True\<rparr>)))
   \<and> (parse_ok env \<and> init_arch env = Some arch \<and> decode_ret env = 0
      \<and> main api env = Inr r \<longrightarrow> exit_code r = 0 \<and> log_err r = [])"
  using main_failed_open_content [where api = api and env = env and r = r]
    main_verdict_open [where api = api and env = env and b = True]
    main_exit_zero [where api = api and env = env and r = r and arch = arch]
  by (simp add: verdict_def)

theorem failed_open_goes_unnoticed_witness:
  "map_sum id (\<lambda>x. content (csv_file x)) (main sample_api env_open_fails) = Inr []
   \<and> map_sum id (\<lambda>x. (exit_code x, log_err x, last_id x)) (main sample_api env_open_fails) =
     map_sum id (\<lambda>x. (exit_code x, log_err x, last_id x))
       (main sample_api (env_open_fails\<lparr>open_ok := True\<rparr>))
   \<and> map_sum id (\<lambda>x. (exit_code x, log_err x)) (main sample_api env_open_fails) = Inr (0, [])"
proof -
  have o: "\<not> open_ok env_open_fails" "parse_ok env_open_fails"
    "init_arch env_open_fails = Some (LLM_ARCH_OTHER 0)" "decode_ret env_open_fails = 0"
    by (simp_all add: env_open_fails_def)
  have "\<not> isl (main sample_api env_open_fails)"
    by code_simp
  then obtain r where m: "main sample_api env_open_fails = Inr r"
    by (cases "main sample_api env_open_fails") auto
  note w = failed_open_goes_unnoticed [where env = env_open_fails and api = sample_api
      and r = r and arch = "LLM_ARCH_OTHER 0"]
  from w o m have a: "content (csv_file r) = []"
    and b: "map_sum id (\<lambda>x. (exit_code x, log_err x, last_id x)) (main sample_api env_open_fails) =
       map_sum id (\<lambda>x. (exit_code x, log_err x, last_id x))
         (main sample_api (env_open_fails\<lparr>open_ok := True\<rparr>))"
    and c: "exit_code r = 0 \<and> log_err r = []"
    by blast+
  show ?thesis
  proof (intro conjI)
    show "map_sum id (\<lambda>x. content (csv_file x)) (main sample_api env_open_fails) = Inr []"
      using m a by simp
    show "map_sum id (\<lambda>x. (exit_code x, log_err x, last_id x)) (main sample_api env_open_fails) =
       map_sum id (\<lambda>x. (exit_code x, log_err x, last_id x))
         (main sample_api (env_open_fails\<lparr>open_ok := True\<rparr>))"
      by (rule b)
    show "map_sum id (\<lambda>x. (exit_code x, log_err x)) (main sample_api env_open_fails) = Inr (0, [])"
      using m c by simp
  qed
qed

text \<open>
  Against C4 as stated: with a file that cannot be opened and one accepted node, the
  process reports nothing, runs the graph (the counter ends at 1) and exits with 0.
\<close>

theorem open_failure_exit_zero:
  "\<not> open_ok env_open_fails
   \<and> main sample_api env_open_fails =
       Inr \<lparr>exit_code = 0, log_err = [], csv_file = \<lparr>failbit = True, content = []\<rparr>,
            last_id = 1\<rparr>"
  by code_simp

subsection \<open>Block-quantized tensors in the Deliver phase\<close>

text \<open>
  C5, as amended. The Deliver phase skips a block-quantized tensor: it returns true and
  advances the counter, and the output stream stays as it was. A tensor of any other
  encoding is handed to \<^verbatim>\<open>ggml_print_tensor_to_csv\<close>.
\<close>

theorem quantized_tensor_skipped:
  "(ggml_is_quantized (type t) \<longrightarrow>
      (\<exists>st'. ggml_eval_layer_output api t False st = Inr (True, st')
             \<and> out_csv st' = out_csv st \<and> id_static st' = id_static st + 1))
   \<and> (\<not> ggml_is_quantized (type t) \<longrightarrow>
      ggml_eval_layer_output api t False st =
        map_sum id
          (\<lambda>csv. (True, (transfer api t st)\<lparr>out_csv := csv, id_static := id_static st + 1\<rparr>))
          (ggml_print_tensor_to_csv api (out_csv st) (host_view t (transfer api t st))
             (id_static st) t))"
proof (intro conjI impI)
  assume "ggml_is_quantized (type t)"
  then show "\<exists>st'. ggml_eval_layer_output api t False st = Inr (True, st')
             \<and> out_csv st' = out_csv st \<and> id_static st' = id_static st + 1"
    by (simp add: deliver_eq transfer_fields)
next
  assume "\<not> ggml_is_quantized (type t)"
  then show "ggml_eval_layer_output api t False st =
        map_sum id
          (\<lambda>csv. (True, (transfer api t st)\<lparr>out_csv := csv, id_static := id_static st + 1\<rparr>))
          (ggml_print_tensor_to_csv api (out_csv st) (host_view t (transfer api t st))
             (id_static st) t)"
    by (simp add: deliver_eq print_collect sum.map_comp comp_def id_def)
qed

theorem quantized_tensor_skipped_witness:
  "(\<exists>st'. ggml_eval_layer_output sample_api tensor_q4 False session_0 = Inr (True, st')
          \<and> out_csv st' = out_csv session_0 \<and> id_static st' = id_static session_0 + 1)
   \<and> ggml_eval_layer_output sample_api tensor_2x3 False session_0 =
        map_sum id
          (\<lambda>csv. (True, (transfer sample_api tensor_2x3 session_0)
                     \<lparr>out_csv := csv, id_static := id_static session_0 + 1\<rparr>))
          (ggml_print_tensor_to_csv sample_api (out_csv session_0)
             (host_view tensor_2x3 (transfer sample_api tensor_2x3 session_0))
             (id_static session_0) tensor_2x3)"
proof -
  have q: "ggml_is_quantized (type tensor_q4)"
    by (simp add: tensor_q4_def)
  have n: "\<not> ggml_is_quantized (type tensor_2x3)"
    by (simp add: tensor_2x3_def)
  from quantized_tensor_skipped [of tensor_q4 sample_api session_0] q
    quantized_tensor_skipped [of tensor_2x3 sample_api session_0] n
  show ?thesis by blast
qed

text \<open>
  Against C5 as stated: the Deliver phase on a block-quantized tensor of 32 elements
  only advances the counter; the output stream stays as it was.
\<close>

theorem quantized_elements_skipped:
  "ggml_is_quantized (type tensor_q4)
   \<and> ggml_nelements tensor_q4 = 32
   \<and> ggml_eval_layer_output sample_api tensor_q4 False session_0 =
       Inr (True, session_0\<lparr>id_static := 1\<rparr>)
   \<and> out_csv (session_0\<lparr>id_static := 1\<rparr>) = out_csv session_0"
  by code_simp

subsection \<open>Rows per tensor\<close>

text \<open>
  C6, as amended. For a delivered tensor whose encoding is one that the decoder reads in
  place (F16, F32, I32, I16, I8), whose elements all lie inside the bytes handed to the
  serializer, and with the output stream open, Deliver returns and appends exactly
  \<open>e0*e1*e2*e3\<close> rows (none when an extent is zero): the rows of \<open>tensor_rows\<close>, one
  for each multi-index of the walk, which has no duplicates and covers every
  \<open>0 \<le> i_k < e_k\<close>.
\<close>

theorem deliver_row_count:
  assumes "decodable (type t)"
    and "in_bounds t (host_view t (transfer api t st))"
    and "\<not> failbit (out_csv st)"
    and "ne t = (e0, e1, e2, e3)"
  shows "\<exists>st' rows.
           ggml_eval_layer_output api t False st = Inr (True, st')
           \<and> content (out_csv st') = content (out_csv st) @ map Row rows
           \<and> length rows = nat (sint e0) * nat (sint e1) * nat (sint e2) * nat (sint e3)
           \<and> tensor_rows api (host_view t (transfer api t st)) (id_static st) t = Inr rows
           \<and> distinct (walker_spec (ne t))
           \<and> set (walker_spec (ne t)) =
               {(i0, i1, i2, i3). i0 < nat (sint e0) \<and> i1 < nat (sint e1) \<and>
                  i2 < nat (sint e2) \<and> i3 < nat (sint e3)}"
proof -
  let ?buf = "host_view t (transfer api t st)"
  from rows_total [OF assms(1,2), of api "id_static st"]
  obtain rs where rs: "tensor_rows api ?buf (id_static st) t = Inr rs"
    by blast
  let ?st' = "(transfer api t st)\<lparr>out_csv := put_lines (out_csv st) (map Row rs),
                id_static := id_static st + 1\<rparr>"
  have "ggml_eval_layer_output api t False st = Inr (True, ?st')"
    using rs assms(1) by (simp add: deliver_eq decodable_not_quantized)
  moreover have "content (out_csv ?st') = content (out_csv st) @ map Row rs"
    using assms(3) by (simp add: put_lines_content)
  moreover have "length rs = nat (sint e0) * nat (sint e1) * nat (sint e2) * nat (sint e3)"
    using tensor_rows_length [OF rs] by (simp add: assms(4) length_walker_spec)
  moreover note rs distinct_walker_spec [of "ne t"]
    set_walker_spec [of e0 e1 e2 e3]
  ultimately show ?thesis
    unfolding assms(4) by blast
qed

theorem deliver_row_count_witness:
  "\<exists>st' rows.
     ggml_eval_layer_output sample_api tensor_2x3 False session_0 = Inr (True, st')
     \<and> content (out_csv st') = content (out_csv session_0) @ map Row rows
     \<and> length rows = 6"
proof -
  have d: "decodable (type tensor_2x3)"
    by (simp add: decodable_def tensor_2x3_def)
  have b: "in_bounds tensor_2x3 (host_view tensor_2x3 (transfer sample_api tensor_2x3 session_0))"
    by code_simp
  have f: "\<not> failbit (out_csv session_0)"
    by (simp add: session_0_def session_start_def stream_open_def init_csv_columns_def
        put_line_def ofstream_open_def)
  have n: "ne tensor_2x3 = (2, 3, 1, 1)"
    by (simp add: tensor_2x3_def)
  from deliver_row_count [OF d b f n] show ?thesis
    by auto
qed

text \<open>
  Against C6 as stated: a delivered block-quantized tensor of shape (32,1,1,1), here in
  device memory, is copied into the scratch buffer and gets no row at all.
\<close>

theorem quantized_tensor_no_rows:
  "ne tensor_q4_device = (32, 1, 1, 1)
   \<and> ggml_eval_layer_output sample_api tensor_q4_device False session_0 =
       Inr (True, session_0\<lparr>cb_data := \<lparr>elems = replicate 18 0, capacity = 18\<rparr>,
                              id_static := 1\<rparr>)
   \<and> content (out_csv (session_0\<lparr>cb_data := \<lparr>elems = replicate 18 0, capacity = 18\<rparr>,
                                  id_static := 1\<rparr>)) = content (out_csv session_0)"
  by code_simp

subsection \<open>The walk\<close>

text \<open>
  C7. The loop nest of \<^verbatim>\<open>ggml_print_tensor_to_csv\<close> is one pass over the
  multi-indices in the order of \<open>walker_spec\<close>: all \<open>0 \<le> i_k < e_k\<close>, \<open>i0\<close> varying
  fastest and \<open>i3\<close> slowest. When it returns, the rows it wrote are in that order: the
  index column of the k-th row is the k-th multi-index, and its value is the element
  decoded at the byte offset \<open>i3*s3 + i2*s2 + i1*s1 + i0*s0\<close> (reduced to the range of
  \<^verbatim>\<open>size_t\<close>). The walk is a function of shape and strides, so walking twice gives the
  same sequence. The witness is the float32 tensor of shape (2,3,1,1): six rows, from
  \<open>{0, 0, 0, 0}\<close> to \<open>{1, 2, 0, 0}\<close>.
\<close>

theorem walker_enumeration:
  "ggml_print_tensor_to_csv api csv buf id0 t =
     for_each (walker_spec (ne t)) (write_element api buf id0 t (unquantized api buf t)) csv
   \<and> (ggml_print_tensor_to_csv api csv buf id0 t = Inr csv' \<and> \<not> failbit csv \<longrightarrow>
        (\<exists>rows. content csv' = content csv @ map Row rows
           \<and> map row_curr_ne rows = map index_string (walker_spec (ne t))
           \<and> list_all2
                (\<lambda>idx r. decode_element api (type t) buf (unquantized api buf t)
                            (offset_spec (nb t) idx mod 2 ^ 64) = Inr (row_value r))
                (walker_spec (ne t)) rows))"
proof (intro conjI impI)
  show "ggml_print_tensor_to_csv api csv buf id0 t =
     for_each (walker_spec (ne t)) (write_element api buf id0 t (unquantized api buf t)) csv"
    by (rule print_walk)
next
  assume a: "ggml_print_tensor_to_csv api csv buf id0 t = Inr csv' \<and> \<not> failbit csv"
  then obtain rs where rs: "tensor_rows api buf id0 t = Inr rs"
    and c: "csv' = put_lines csv (map Row rs)"
    by (cases "tensor_rows api buf id0 t") (auto simp: print_collect)
  from a c have "content csv' = content csv @ map Row rs"
    by (simp add: put_lines_content)
  with rows_follow_walk [OF tensor_rows_all2 [OF rs]]
  show "\<exists>rows. content csv' = content csv @ map Row rows
           \<and> map row_curr_ne rows = map index_string (walker_spec (ne t))
           \<and> list_all2
                (\<lambda>idx r. decode_element api (type t) buf (unquantized api buf t)
                            (offset_spec (nb t) idx mod 2 ^ 64) = Inr (row_value r))
                (walker_spec (ne t)) rows"
    by blast
qed

theorem walker_enumeration_witness:
  "\<exists>csv' rows.
     ggml_print_tensor_to_csv sample_api (ofstream_open True) (data tensor_2x3) 0 tensor_2x3
       = Inr csv'
     \<and> content csv' = content (ofstream_open True) @ map Row rows
     \<and> map row_curr_ne rows =
         [''{0, 0, 0, 0}'', ''{1, 0, 0, 0}'', ''{0, 1, 0, 0}'', ''{1, 1, 0, 0}'',
          ''{0, 2, 0, 0}'', ''{1, 2, 0, 0}'']"
proof -
  from sample_print obtain csv' where
    p: "ggml_print_tensor_to_csv sample_api (ofstream_open True) (data tensor_2x3) 0 tensor_2x3
          = Inr csv'" by blast
  have f: "\<not> failbit (ofstream_open True)"
    by (simp add: ofstream_open_def)
  from walker_enumeration [of sample_api "ofstream_open True" "data tensor_2x3" 0 tensor_2x3 csv']
    p f
  obtain rows where "content csv' = content (ofstream_open True) @ map Row rows"
    and "map row_curr_ne rows = map index_string (walker_spec (ne tensor_2x3))"
    by blast
  with p show ?thesis
    unfolding sample_walk by (intro exI [of _ csv'] exI [of _ rows]) simp
qed

subsection \<open>The scratch buffer\<close>

text \<open>
  C8, as amended. A Deliver step for a tensor that is not host-resident leaves the scratch
  buffer with exactly the tensor's byte footprint as its size, hence with at least that
  capacity; a Deliver step for a host-resident tensor does not touch the scratch buffer.
  The capacity never shrinks, in one step or over a graph run.
\<close>

theorem scratch_buffer_capacity:
  "(ggml_eval_layer_output api t False st = Inr (b, st') \<longrightarrow>
      capacity (cb_data st) \<le> capacity (cb_data st')
      \<and> (if is_host t then cb_data st' = cb_data st
          else ggml_nbytes api t \<le> capacity (cb_data st')
               \<and> length (elems (cb_data st')) = ggml_nbytes api t))
   \<and> (sched_eval api ts st = Inr st2 \<longrightarrow> capacity (cb_data st) \<le> capacity (cb_data st2))"
proof (intro conjI impI)
  assume d: "ggml_eval_layer_output api t False st = Inr (b, st')"
  show "capacity (cb_data st) \<le> capacity (cb_data st')"
    using deliver_cb_data [OF d] transfer_capacity [of st api t] by simp
  show "if is_host t then cb_data st' = cb_data st
        else ggml_nbytes api t \<le> capacity (cb_data st')
             \<and> length (elems (cb_data st')) = ggml_nbytes api t"
    using deliver_cb_data [OF d] capacity_resize [of "cb_data st" api "ggml_nbytes api t"]
    by (simp add: transfer_def length_tensor_get) (simp add: ggml_backend_tensor_get_def)
next
  assume "sched_eval api ts st = Inr st2"
  then show "capacity (cb_data st) \<le> capacity (cb_data st2)"
    by (rule sched_capacity)
qed

theorem scratch_buffer_capacity_witness:
  "\<exists>st' st2.
     ggml_eval_layer_output sample_api tensor_2x3_device False session_0 = Inr (True, st')
     \<and> 24 \<le> capacity (cb_data st') \<and> length (elems (cb_data st')) = 24
     \<and> sched_eval sample_api graph_3 session_0 = Inr st2
     \<and> capacity (cb_data session_0) \<le> capacity (cb_data st2)"
proof -
  from sample_deliver_device obtain st' where
    d: "ggml_eval_layer_output sample_api tensor_2x3_device False session_0 = Inr (True, st')"
    by blast
  from sample_sched obtain st2 where
    s: "sched_eval sample_api graph_3 session_0 = Inr st2" by blast
  have h: "\<not> is_host tensor_2x3_device" "ggml_nbytes sample_api tensor_2x3_device = 24"
    by (simp_all add: tensor_2x3_device_def tensor_2x3_def sample_api_def)
  from scratch_buffer_capacity [of sample_api tensor_2x3_device session_0 True st' graph_3 st2]
    d s h
  show ?thesis by auto
qed

text \<open>
  Against C8 as stated: after the Deliver step of a host-resident tensor of 4 bytes in
  a fresh session, which writes the tensor's row, the capacity of the scratch buffer is 0.
\<close>

theorem host_tensor_leaves_scratch_empty:
  "is_host tensor_one
   \<and> ggml_nbytes sample_api tensor_one = 4
   \<and> ggml_eval_layer_output sample_api tensor_one False session_0 =
       Inr (True,
         \<lparr>id_static = 1,
          cb_data = \<lparr>elems = [], capacity = 0\<rparr>,
          out_csv = put_line stream_open
            (Row \<lparr>row_id = 0, row_name = ''l_out-0'', row_type = ''f32'', row_op = ''ADD'',
                  row_full_ne = ''{1, 1, 1, 1}'', row_curr_ne = ''{0, 0, 0, 0}'',
                  row_value = 0x3F800000\<rparr>),
          g_model_arch = LLM_ARCH_OTHER 0\<rparr>)"
  by code_simp

subsection \<open>The element decoder\<close>

text \<open>
  C9. For an offset at which the element lies inside the buffer, the decoder returns: under
  the float32 tag the 32-bit pattern made of the four bytes at the offset (the float
  with exactly these bits); under the float16 tag the half to single widening of the
  16-bit pattern made of the two bytes; under the 32-, 16- and 8-bit integer tags the
  conversion to float of the signed (two's complement) value of the four, two or one
  bytes. Bytes are taken in little-endian order. The decoder is called without a parallel
  buffer for exactly these tags.
\<close>

theorem decoder_rules:
  "(i + 4 \<le> length buf \<longrightarrow>
      (\<exists>v. decode_element api GGML_TYPE_F32 buf None i = Inr v \<and>
           uint v = uint (buf ! i) + 256 * uint (buf ! (i + 1)) + 65536 * uint (buf ! (i + 2))
                    + 16777216 * uint (buf ! (i + 3))))
   \<and> (i + 2 \<le> length buf \<longrightarrow>
      (\<exists>h. decode_element api GGML_TYPE_F16 buf None i = Inr (ggml_fp16_to_fp32 api h) \<and>
           uint h = uint (buf ! i) + 256 * uint (buf ! (i + 1))))
   \<and> (i + 4 \<le> length buf \<longrightarrow>
      (\<exists>w :: 32 word. decode_element api GGML_TYPE_I32 buf None i = Inr (float_of_int api (sint w)) \<and>
           uint w = uint (buf ! i) + 256 * uint (buf ! (i + 1)) + 65536 * uint (buf ! (i + 2))
                    + 16777216 * uint (buf ! (i + 3))))
   \<and> (i + 2 \<le> length buf \<longrightarrow>
      (\<exists>w :: 16 word. decode_element api GGML_TYPE_I16 buf None i = Inr (float_of_int api (sint w)) \<and>
           uint w = uint (buf ! i) + 256 * uint (buf ! (i + 1))))
   \<and> (i + 1 \<le> length buf \<longrightarrow>
      decode_element api GGML_TYPE_I8 buf None i = Inr (float_of_int api (sint (buf ! i))))
   \<and> (decodable (type t) \<longrightarrow> unquantized api buf t = None)"
proof (intro conjI impI)
  assume b: "i + 4 \<le> length buf"
  show "\<exists>v. decode_element api GGML_TYPE_F32 buf None i = Inr v \<and>
           uint v = uint (buf ! i) + 256 * uint (buf ! (i + 1)) + 65536 * uint (buf ! (i + 2))
                    + 16777216 * uint (buf ! (i + 3))"
    using b uint_le_word_4 [of "buf ! i" "buf ! (i + 1)" "buf ! (i + 2)" "buf ! (i + 3)"]
    by (simp add: decode_element_def load_bytes_def take_drop_4 del: le_word.simps)
  show "\<exists>w :: 32 word. decode_element api GGML_TYPE_I32 buf None i = Inr (float_of_int api (sint w)) \<and>
           uint w = uint (buf ! i) + 256 * uint (buf ! (i + 1)) + 65536 * uint (buf ! (i + 2))
                    + 16777216 * uint (buf ! (i + 3))"
    using b uint_le_word_4 [of "buf ! i" "buf ! (i + 1)" "buf ! (i + 2)" "buf ! (i + 3)"]
    by (auto simp add: decode_element_def load_bytes_def take_drop_4 simp del: le_word.simps)
next
  assume b: "i + 2 \<le> length buf"
  show "\<exists>h. decode_element api GGML_TYPE_F16 buf None i = Inr (ggml_fp16_to_fp32 api h) \<and>
           uint h = uint (buf ! i) + 256 * uint (buf ! (i + 1))"
    using b uint_le_word_2 [of "buf ! i" "buf ! (i + 1)"]
    by (auto simp add: decode_element_def load_bytes_def take_drop_2 simp del: le_word.simps)
  show "\<exists>w :: 16 word. decode_element api GGML_TYPE_I16 buf None i = Inr (float_of_int api (sint w)) \<and>
           uint w = uint (buf ! i) + 256 * uint (buf ! (i + 1))"
    using b uint_le_word_2 [of "buf ! i" "buf ! (i + 1)"]
    by (auto simp add: decode_element_def load_bytes_def take_drop_2 simp del: le_word.simps)
next
  assume b: "i + 1 \<le> length buf"
  with take_drop_1 [of i buf]
  show "decode_element api GGML_TYPE_I8 buf None i = Inr (float_of_int api (sint (buf ! i)))"
    by (simp add: decode_element_def load_bytes_def)
next
  assume "decodable (type t)"
  then show "unquantized api buf t = None"
    by (simp add: unquantized_None decodable_not_quantized)
qed

theorem decoder_rules_witness:
  "(\<exists>v. decode_element sample_api GGML_TYPE_F32 bytes_demo None 0 = Inr v \<and> uint v = 0x3F800000)
   \<and> (\<exists>h. decode_element sample_api GGML_TYPE_F16 bytes_demo None 2 =
            Inr (ggml_fp16_to_fp32 sample_api h) \<and> uint h = 0x3F80)
   \<and> (\<exists>w :: 32 word. decode_element sample_api GGML_TYPE_I32 bytes_demo None 4 =
            Inr (float_of_int sample_api (sint w)) \<and> uint w = 0xFFFFFFFE)
   \<and> (\<exists>w :: 16 word. decode_element sample_api GGML_TYPE_I16 bytes_demo None 4 =
            Inr (float_of_int sample_api (sint w)) \<and> uint w = 0xFFFE)
   \<and> decode_element sample_api GGML_TYPE_I8 bytes_demo None 4 =
        Inr (float_of_int sample_api (- 2))
   \<and> unquantized sample_api bytes_demo tensor_2x3 = None"
  using decoder_rules [of 0 bytes_demo sample_api tensor_2x3]
    decoder_rules [of 2 bytes_demo sample_api tensor_2x3]
    decoder_rules [of 4 bytes_demo sample_api tensor_2x3] sample_decodable
  by (simp add: bytes_demo_def)

subsection \<open>The sequence id of a row\<close>

text \<open>
  C10. All rows that one Deliver invocation appends carry the value the counter had
  when the invocation started, and the invocation advances the counter by one. The
  rows are those of \<open>tensor_rows\<close> (none for a block-quantized tensor or a failed
  stream). The counter starts at 0 and the Ask phase leaves the state as it is, so in a
  run the rows of a delivered node carry the number of the nodes delivered before it:
  0 for the first, 1 for the second, and so on.
\<close>

theorem rows_carry_sequence_id:
  "(ggml_eval_layer_output api t False st = Inr (b, st') \<longrightarrow>
      id_static st' = id_static st + 1
      \<and> (\<exists>rows. content (out_csv st') = content (out_csv st) @ map Row rows
             \<and> list_all (\<lambda>r. row_id r = id_static st) rows
             \<and> (if failbit (out_csv st) \<or> ggml_is_quantized (type t) then rows = []
                else tensor_rows api (host_view t (transfer api t st)) (id_static st) t
                     = Inr rows)))
   \<and> (sched_eval api (ts @ t # us) (session_start csv arch) = Inr st3
      \<and> ask_phase arch (name t) \<longrightarrow>
        (\<exists>s1 s2 rows.
           sched_eval api ts (session_start csv arch) = Inr s1
           \<and> id_static s1 = of_nat (length (filter (\<lambda>u. ask_phase arch (name u)) ts))
           \<and> ggml_eval_layer_output api t False s1 = Inr (True, s2)
           \<and> id_static s2 = id_static s1 + 1
           \<and> sched_eval api us s2 = Inr st3
           \<and> content (out_csv s2) = content (out_csv s1) @ map Row rows
           \<and> list_all
                (\<lambda>r. row_id r = of_nat (length (filter (\<lambda>u. ask_phase arch (name u)) ts)))
                rows
           \<and> (if failbit (out_csv s1) \<or> ggml_is_quantized (type t) then rows = []
              else tensor_rows api (host_view t (transfer api t s1)) (id_static s1) t
                   = Inr rows)))
   \<and> id_static (session_start csv arch) = 0
   \<and> ggml_eval_layer_output api t True st = Inr (ask_phase (g_model_arch st) (name t), st)"
proof (intro conjI impI)
  assume a: "ggml_eval_layer_output api t False st = Inr (b, st')"
  from deliver_counter [OF a] show "id_static st' = id_static st + 1" by simp
  from deliver_rows [OF a]
  show "\<exists>rows. content (out_csv st') = content (out_csv st) @ map Row rows
             \<and> list_all (\<lambda>r. row_id r = id_static st) rows
             \<and> (if failbit (out_csv st) \<or> ggml_is_quantized (type t) then rows = []
                else tensor_rows api (host_view t (transfer api t st)) (id_static st) t
                     = Inr rows)" .
next
  let ?s0 = "session_start csv arch"
  let ?k = "of_nat (length (filter (\<lambda>u. ask_phase arch (name u)) ts)) :: size_t"
  assume a: "sched_eval api (ts @ t # us) ?s0 = Inr st3 \<and> ask_phase arch (name t)"
  have s0: "id_static ?s0 = 0" "g_model_arch ?s0 = arch"
    by (simp_all add: session_start_def)
  from a obtain s1 where s1: "sched_eval api ts ?s0 = Inr s1"
    and r: "sched_eval api (t # us) s1 = Inr st3"
    by (cases "sched_eval api ts ?s0") (auto simp: sched_eval_append)
  from sched_counter [OF s1] s0 have k: "id_static s1 = ?k" and g: "g_model_arch s1 = arch"
    by simp_all
  from r a g obtain b s2 where d: "ggml_eval_layer_output api t False s1 = Inr (b, s2)"
    and u: "sched_eval api us s2 = Inr st3"
    by (auto simp: ask_eq split: sum.splits prod.splits if_splits dest: deliver_counter)
  from deliver_counter [OF d] have b: "b = True" and i: "id_static s2 = id_static s1 + 1"
    by simp_all
  from deliver_rows [OF d] obtain rows where
    "content (out_csv s2) = content (out_csv s1) @ map Row rows"
    "list_all (\<lambda>r. row_id r = id_static s1) rows"
    "if failbit (out_csv s1) \<or> ggml_is_quantized (type t) then rows = []
     else tensor_rows api (host_view t (transfer api t s1)) (id_static s1) t = Inr rows"
    by blast
  with s1 k d b i u
  show "\<exists>s1 s2 rows.
           sched_eval api ts ?s0 = Inr s1
           \<and> id_static s1 = ?k
           \<and> ggml_eval_layer_output api t False s1 = Inr (True, s2)
           \<and> id_static s2 = id_static s1 + 1
           \<and> sched_eval api us s2 = Inr st3
           \<and> content (out_csv s2) = content (out_csv s1) @ map Row rows
           \<and> list_all (\<lambda>r. row_id r = ?k) rows
           \<and> (if failbit (out_csv s1) \<or> ggml_is_quantized (type t) then rows = []
              else tensor_rows api (host_view t (transfer api t s1)) (id_static s1) t
                   = Inr rows)"
    by (intro exI [of _ s1] exI [of _ s2] exI [of _ rows]) simp
next
  show "id_static (session_start csv arch) = 0"
    by (simp add: session_start_def)
  show "ggml_eval_layer_output api t True st = Inr (ask_phase (g_model_arch st) (name t), st)"
    by (rule ask_eq)
qed

theorem rows_carry_sequence_id_witness:
  "\<exists>st' rows s1 s2 rows2 st3.
     ggml_eval_layer_output sample_api tensor_2x3 False session_0 = Inr (True, st')
     \<and> id_static st' = 1
     \<and> content (out_csv st') = content (out_csv session_0) @ map Row rows
     \<and> map row_id rows = [0, 0, 0, 0, 0, 0]
     \<and> sched_eval sample_api graph_2 session_0 = Inr st3
     \<and> sched_eval sample_api [tensor_2x3] session_0 = Inr s1
     \<and> ggml_eval_layer_output sample_api tensor_one False s1 = Inr (True, s2)
     \<and> id_static s2 = 2
     \<and> content (out_csv s2) = content (out_csv s1) @ map Row rows2
     \<and> map row_id rows2 = [1]"
proof -
  have s0: "session_0 = session_start stream_open (LLM_ARCH_OTHER 0)"
    by (simp add: session_0_def)
  have z: "id_static session_0 = 0"
    by (simp add: session_0_def session_start_def)
  have h: "is_host tensor_2x3" "is_host tensor_one"
    "\<not> ggml_is_quantized (type tensor_2x3)" "\<not> ggml_is_quantized (type tensor_one)"
    by (simp_all add: tensor_2x3_def tensor_one_def)
  \<comment> \<open>the first Deliver of the session\<close>
  from sample_deliver obtain st' where
    d: "ggml_eval_layer_output sample_api tensor_2x3 False session_0 = Inr (True, st')" by blast
  note first = rows_carry_sequence_id [where api = sample_api and t = tensor_2x3
      and st = session_0 and b = True and st' = st', THEN conjunct1, rule_format, OF d]
  from first z have i: "id_static st' = 1" by simp
  from first sample_graph_2(5) h z obtain rows where
    c: "content (out_csv st') = content (out_csv session_0) @ map Row rows"
    and r: "tensor_rows sample_api (data tensor_2x3) 0 tensor_2x3 = Inr rows"
    by (auto simp: host_view_def)
  from r sample_rows_ids(1) have ids: "map row_id rows = [0, 0, 0, 0, 0, 0]" by simp
  \<comment> \<open>the second delivered node of a run\<close>
  from sample_graph_2(1) obtain st3 where
    g: "sched_eval sample_api graph_2 session_0 = Inr st3"
    by (cases "sched_eval sample_api graph_2 session_0") auto
  then have g': "sched_eval sample_api ([tensor_2x3] @ tensor_one # [])
      (session_start stream_open (LLM_ARCH_OTHER 0)) = Inr st3"
    by (simp add: graph_2_def s0)
  note second = rows_carry_sequence_id [where api = sample_api and ts = "[tensor_2x3]"
      and t = tensor_one and us = "[]" and csv = stream_open and arch = "LLM_ARCH_OTHER 0"
      and ?st3.0 = st3, THEN conjunct2, THEN conjunct1, rule_format,
      OF conjI [OF g' sample_graph_2(4)]]
  from second obtain s1 s2 rows2 where
    s1: "sched_eval sample_api [tensor_2x3] session_0 = Inr s1"
    and k: "id_static s1 = 1"
    and d2: "ggml_eval_layer_output sample_api tensor_one False s1 = Inr (True, s2)"
    and i2: "id_static s2 = id_static s1 + 1"
    and c2: "content (out_csv s2) = content (out_csv s1) @ map Row rows2"
    and p: "if failbit (out_csv s1) \<or> ggml_is_quantized (type tensor_one) then rows2 = []
            else tensor_rows sample_api
                   (host_view tensor_one (transfer sample_api tensor_one s1)) (id_static s1)
                   tensor_one = Inr rows2"
    unfolding sample_graph_2(3) s0 [symmetric] by auto
  from s1 sample_graph_2(2) have "\<not> failbit (out_csv s1)" by simp
  with p h k have "tensor_rows sample_api (data tensor_one) 1 tensor_one = Inr rows2"
    by (simp add: host_view_def)
  with sample_rows_ids(2) have ids2: "map row_id rows2 = [1]" by simp
  from i2 k have "id_static s2 = 2" by simp
  with d i c ids g s1 d2 c2 ids2 show ?thesis
    by (intro exI [of _ st'] exI [of _ rows] exI [of _ s1] exI [of _ s2] exI [of _ rows2]
        exI [of _ st3]) simp
qed

end
